theory Spec2Isabelle
  imports Main
begin

section \<open>Values of the Go program\<close>

text \<open>
  The command \<^verbatim>\<open>git lfs fsck\<close> lives in \<^verbatim>\<open>commands/command_fsck.go\<close>. It talks to
  the operating system (\<^verbatim>\<open>os.Open\<close>, \<^verbatim>\<open>os.Rename\<close>), to the history scanner of package
  \<^verbatim>\<open>lfs\<close>, to the ref resolver of package \<^verbatim>\<open>git\<close> and to the configuration. None of these
  is part of the file; each one enters the model as data: the file system as a finite map,
  the collaborators as fields of an environment record.
\<close>

datatype errno = ENOENT | EACCES | EISDIR | ENOTDIR | EIO

fun errno_string :: "errno \<Rightarrow> string" where
  "errno_string ENOENT = ''no such file or directory''"
| "errno_string EACCES = ''permission denied''"
| "errno_string EISDIR = ''is a directory''"
| "errno_string ENOTDIR = ''not a directory''"
| "errno_string EIO = ''input/output error''"

text \<open>
  Go errors, by dynamic type. \<open>PathError op p e\<close> is \<^verbatim>\<open>*os.PathError{Op, Path, Err}\<close>,
  \<open>LinkError op old new e\<close> is \<^verbatim>\<open>*os.LinkError\<close>, \<open>PointerScanError t p\<close> is a value of
  type \<^verbatim>\<open>errors.PointerScanError\<close> with \<^verbatim>\<open>OID() = t\<close> and \<^verbatim>\<open>Path() = p\<close>, and
  \<open>OtherError m\<close> is any other error, with its message. A nil error is \<open>None\<close>.
\<close>

datatype go_error =
    PathError string string errno
  | LinkError string string string errno
  | PointerScanError string string
  | OtherError string

text \<open>\<^verbatim>\<open>git.Ref\<close>: only the field \<^verbatim>\<open>Sha\<close> is read by the command.\<close>

record ref =
  Name :: string
  Sha :: string

text \<open>
  \<^verbatim>\<open>lfs.WrappedPointer\<close> with its embedded \<^verbatim>\<open>*lfs.Pointer\<close>: the fields the command
  reads. \<open>Size\<close> is an \<^verbatim>\<open>int64\<close>; it is only compared with zero, so an integer stands
  for it.
\<close>

record WrappedPointer =
  Sha1 :: string
  PName :: string
  Oid :: string
  Size :: int
  Canonical :: bool

record corruptPointer =
  blobOid :: string
  treeOid :: string
  lfsOid :: string
  path :: string
  message :: string
  kind :: string

definition String :: "corruptPointer \<Rightarrow> string" where
  "String p = kind p @ '': '' @ message p"

text \<open>
  The ways the command ends. \<open>Return\<close>: \<^verbatim>\<open>fsckCommand\<close> returns to its caller (the
  process then ends with status 0). \<open>OsExit n\<close>: \<^verbatim>\<open>os.Exit(n)\<close>. \<open>ExitWithError e\<close> and
  \<open>Panic e m\<close>: the helpers of package \<^verbatim>\<open>commands\<close> that print the error and end the
  process with a failure status. \<open>RuntimePanic m\<close>: a Go run-time panic (nil dereference,
  index out of range).
\<close>

datatype exit =
    Return
  | OsExit int
  | ExitWithError go_error
  | Panic "go_error option" string
  | RuntimePanic string

subsection \<open>The file system\<close>

text \<open>
  A path holds a regular file with its bytes, a file whose reads fail, a file that cannot
  be opened, or a directory. \<^verbatim>\<open>os.Open\<close> fails with a \<^verbatim>\<open>*os.PathError\<close> (the only error
  type it returns); opening a directory succeeds and reading it fails.
\<close>

datatype fs_node = RegularFile string | UnreadableFile | ForbiddenFile | Directory

type_synonym fs = "string \<rightharpoonup> fs_node"

definition os_Open :: "fs \<Rightarrow> string \<Rightarrow> go_error + (string \<times> fs_node)" where
  "os_Open files p =
     (case files p of
        None \<Rightarrow> Inl (PathError ''open'' p ENOENT)
      | Some ForbiddenFile \<Rightarrow> Inl (PathError ''open'' p EACCES)
      | Some n \<Rightarrow> Inr (p, n))"

text \<open>\<^verbatim>\<open>io.Copy(oidHash, f)\<close>: all the bytes of the file, or the read error.\<close>

fun io_Copy :: "string \<times> fs_node \<Rightarrow> go_error + string" where
  "io_Copy (p, RegularFile bs) = Inr bs"
| "io_Copy (p, UnreadableFile) = Inl (PathError ''read'' p EIO)"
| "io_Copy (p, ForbiddenFile) = Inl (PathError ''read'' p EACCES)"
| "io_Copy (p, Directory) = Inl (PathError ''read'' p EISDIR)"

text \<open>
  \<^verbatim>\<open>os.Rename\<close>: fails when the source is missing, or when the target is a directory and
  the source is not; otherwise the node moves and replaces what the target held.
\<close>

definition os_Rename :: "fs \<Rightarrow> string \<Rightarrow> string \<Rightarrow> go_error + fs" where
  "os_Rename files old new =
     (case files old of
        None \<Rightarrow> Inl (LinkError ''rename'' old new ENOENT)
      | Some n \<Rightarrow>
          if files new = Some Directory \<and> n \<noteq> Directory
          then Inl (LinkError ''rename'' old new EISDIR)
          else Inr ((files(old := None))(new \<mapsto> n)))"

text \<open>
  Modelled from the spec: \<^verbatim>\<open>tools.MkdirAll\<close> is not part of the sources at hand. The
  quarantine directory is created if absent, left alone if it is a directory already,
  and the call fails if the path holds something else.
\<close>

definition MkdirAll :: "fs \<Rightarrow> string \<Rightarrow> go_error + fs" where
  "MkdirAll files d =
     (case files d of
        None \<Rightarrow> Inr (files(d \<mapsto> Directory))
      | Some Directory \<Rightarrow> Inr files
      | Some _ \<Rightarrow> Inl (PathError ''mkdir'' d ENOTDIR))"

text \<open>\<^verbatim>\<open>filepath.Join\<close> of a clean directory path and a single name.\<close>

definition filepath_Join :: "string \<Rightarrow> string \<Rightarrow> string" where
  "filepath_Join d n = d @ ''/'' @ n"

subsection \<open>Library functions\<close>

definition hexdigit :: "nat \<Rightarrow> char" where
  "hexdigit n = ''0123456789abcdef'' ! n"

fun hex_EncodeToString :: "string \<Rightarrow> string" where
  "hex_EncodeToString [] = []"
| "hex_EncodeToString (c # cs) =
     hexdigit (of_char c div 16) # hexdigit (of_char c mod 16) # hex_EncodeToString cs"

text \<open>
  \<^verbatim>\<open>strings.SplitN(s, sep, 2)\<close> for a non-empty separator: the text before the first
  occurrence of \<open>sep\<close> and the text after it, or \<open>s\<close> alone when \<open>sep\<close> does not occur.
  \<open>strings_Cut\<close> looks for that first occurrence.
\<close>

fun strings_Cut :: "string \<Rightarrow> string \<Rightarrow> (string \<times> string) option" where
  "strings_Cut sep [] = None"
| "strings_Cut sep (c # cs) =
     (if take (length sep) (c # cs) = sep then Some ([], drop (length sep) (c # cs))
      else (case strings_Cut sep cs of
              None \<Rightarrow> None
            | Some (a, b) \<Rightarrow> Some (c # a, b)))"

definition strings_SplitN2 :: "string \<Rightarrow> string \<Rightarrow> string list" where
  "strings_SplitN2 s sep =
     (case strings_Cut sep s of None \<Rightarrow> [s] | Some (a, b) \<Rightarrow> [a, b])"

subsection \<open>The collaborators\<close>

text \<open>
  A scan of the history calls the scanner's callback once per record, in order, with a
  pointer or an error, and then returns nil or an error: a scan is the list of the
  callback's arguments and the value returned. The object scans are the ones seen through
  the fetch-exclude filter, which the scanner applies before it calls back.

  \<open>IsPointerScanError\<close> is \<^verbatim>\<open>errors.IsPointerScanError\<close>, \<open>sha256\<close> the digest of
  \<^verbatim>\<open>crypto/sha256\<close>, \<open>ObjectPathname\<close> is \<^verbatim>\<open>cfg.Filesystem().ObjectPathname\<close>.
  The last three fields are what the quoting of a string asks about text beyond ASCII:
  \<^verbatim>\<open>utf8.DecodeRuneInString\<close> (the rune at the head of a string and its width in bytes),
  \<^verbatim>\<open>utf8.EncodeRune\<close> (the bytes of a rune) and \<^verbatim>\<open>strconv.IsPrint\<close>. Runes are
  natural numbers.
\<close>

type_synonym event = "WrappedPointer option \<times> go_error option"
type_synonym scan = "event list \<times> go_error option"

record env =
  CurrentRef :: "go_error + ref"
  ResolveRefs :: "string list \<Rightarrow> go_error + ref list"
  IsPointerScanError :: "go_error option \<Rightarrow> bool"
  ScanRef :: "string \<Rightarrow> scan"
  ScanRefRange :: "string \<Rightarrow> string \<Rightarrow> scan"
  ScanIndex :: "string \<Rightarrow> scan"
  ScanRefByTree :: "string \<Rightarrow> scan"
  ScanRefRangeByTree :: "string \<Rightarrow> string \<Rightarrow> scan"
  ObjectPathname :: "string \<Rightarrow> string"
  LFSStorageDir :: string
  sha256 :: "string \<Rightarrow> string"
  DecodeRuneInString :: "string \<Rightarrow> nat \<times> nat"
  EncodeRune :: "nat \<Rightarrow> string"
  IsPrint :: "nat \<Rightarrow> bool"

subsection \<open>Quoting a string\<close>

text \<open>
  The verb \<^verbatim>\<open>%q\<close> of \<^verbatim>\<open>fmt.Sprintf\<close> on a string is \<^verbatim>\<open>strconv.Quote\<close>: the string
  between double quotes, rune by rune. A double quote and a backslash get a backslash in
  front; a printable rune stands for itself; the control characters with a letter are
  written with it; other control characters and bytes that are no valid UTF-8 are written
  \<^verbatim>\<open>\xhh\<close>; what is left is written \<^verbatim>\<open>\uhhhh\<close> or \<^verbatim>\<open>\Uhhhhhhhh\<close>. The answers for
  ASCII are written out; a byte from \<open>0x80\<close> on goes to the decoder of the environment.
\<close>

definition backslash :: char where
  "backslash = CHR 0x5C"

definition RuneError :: nat where
  "RuneError = 0xFFFD"

definition ValidRune :: "nat \<Rightarrow> bool" where
  "ValidRune r = (r < 0xD800 \<or> (0xDFFF < r \<and> r \<le> 0x10FFFF))"

definition strconv_IsPrint :: "env \<Rightarrow> nat \<Rightarrow> bool" where
  "strconv_IsPrint E r = (if r < 0x80 then 0x20 \<le> r \<and> r < 0x7F else IsPrint E r)"

definition utf8_EncodeRune :: "env \<Rightarrow> nat \<Rightarrow> string" where
  "utf8_EncodeRune E r = (if r < 0x80 then [char_of r] else EncodeRune E r)"

definition hexdigits :: "nat list \<Rightarrow> nat \<Rightarrow> string" where
  "hexdigits shifts r = map (\<lambda>s. hexdigit (r div 2 ^ s mod 16)) shifts"

definition appendEscapedRune :: "env \<Rightarrow> nat \<Rightarrow> string" where
  "appendEscapedRune E r =
     (if r = 0x22 \<or> r = 0x5C then [backslash, char_of r]
      else if strconv_IsPrint E r then utf8_EncodeRune E r
      else if r = 0x07 then [backslash, CHR ''a'']
      else if r = 0x08 then [backslash, CHR ''b'']
      else if r = 0x0C then [backslash, CHR ''f'']
      else if r = 0x0A then [backslash, CHR ''n'']
      else if r = 0x0D then [backslash, CHR ''r'']
      else if r = 0x09 then [backslash, CHR ''t'']
      else if r = 0x0B then [backslash, CHR ''v'']
      else if r < 0x20 \<or> r = 0x7F then [backslash, CHR ''x''] @ hexdigits [4, 0] r
      else if \<not> ValidRune r then [backslash, CHR ''u''] @ hexdigits [12, 8, 4, 0] RuneError
      else if r < 0x10000 then [backslash, CHR ''u''] @ hexdigits [12, 8, 4, 0] r
      else [backslash, CHR ''U''] @ hexdigits [28, 24, 20, 16, 12, 8, 4, 0] r)"

text \<open>
  The loop of \<^verbatim>\<open>strconv.Quote\<close> over the string. The decoder returns a width of at least
  one byte on a string that is not empty; a width of 0 is read as 1.
\<close>

function quoteRunes :: "env \<Rightarrow> string \<Rightarrow> string" where
  "quoteRunes E [] = []"
| "quoteRunes E (c # cs) =
     (if of_char c < (0x80 :: nat) then appendEscapedRune E (of_char c) @ quoteRunes E cs
      else (case DecodeRuneInString E (c # cs) of
              (r, width) \<Rightarrow>
                if width = 1 \<and> r = RuneError
                then [backslash, CHR ''x''] @ hexdigits [4, 0] (of_char c) @ quoteRunes E cs
                else appendEscapedRune E r @ quoteRunes E (drop (max 1 width) (c # cs))))"
  by pat_completeness auto
termination
  by (relation "measure (\<lambda>(E, s). length s)") auto

definition strconv_Quote :: "env \<Rightarrow> string \<Rightarrow> string" where
  "strconv_Quote E s = [CHR 0x22] @ quoteRunes E s @ [CHR 0x22]"

section \<open>The object pass\<close>

text \<open>
  \<^verbatim>\<open>fsckPointer\<close> returns its two results and the lines it printed. \<^verbatim>\<open>Debug\<close> output is
  not part of the model.
\<close>

definition fsckPointer ::
  "env \<Rightarrow> fs \<Rightarrow> string \<Rightarrow> string \<Rightarrow> int \<Rightarrow> (bool \<times> go_error option) \<times> string list" where
  "fsckPointer E files name oid sz =
     (let p = ObjectPathname E oid in
      case os_Open files p of
        Inl err \<Rightarrow>
          (case err of
             PathError op pp pErr \<Rightarrow>
               if sz = 0 then ((True, None), [])
               else ((False, None),
                     [''objects: openError: '' @ name @ '' ('' @ oid @
                      '') could not be checked: '' @ errno_string pErr])
           | _ \<Rightarrow> ((False, Some err), []))
      | Inr f \<Rightarrow>
          (case io_Copy f of
             Inl err \<Rightarrow> ((False, Some err), [])
           | Inr bytes \<Rightarrow>
               let recalculatedOid = hex_EncodeToString (sha256 E bytes) in
               if recalculatedOid = oid then ((True, None), [])
               else ((False, None),
                     [''objects: corruptObject: '' @ name @ '' ('' @ oid @ '') is corrupt''])))"

text \<open>
  The callback of \<^verbatim>\<open>doFsckObjects\<close>: the new value of \<^verbatim>\<open>corruptOids\<close>, or the way the
  process ends, and the lines printed. When the callback panics the process ends, and
  the value of \<^verbatim>\<open>corruptOids\<close> is gone with it.
\<close>

definition objectsCallback ::
  "env \<Rightarrow> fs \<Rightarrow> event \<Rightarrow> string list \<Rightarrow> (exit + string list) \<times> string list" where
  "objectsCallback E files ev corruptOids =
     (case snd ev of
        Some err \<Rightarrow> (Inl (Panic (Some err) ''Error checking Git LFS files''), [])
      | None \<Rightarrow>
          (case fst ev of
             None \<Rightarrow> (Inl (RuntimePanic ''nil pointer dereference''), [])
           | Some p \<Rightarrow>
               (case fsckPointer E files (PName p) (Oid p) (Size p) of
                  ((pointerOk, err), out) \<Rightarrow>
                    let corruptOids' = (if \<not> pointerOk then corruptOids @ [Oid p]
                                        else corruptOids) in
                    (case err of
                       Some e \<Rightarrow> (Inl (Panic (Some e) ''Error checking Git LFS files''), out)
                     | None \<Rightarrow> (Inr corruptOids', out)))))"

fun scanObjects ::
  "env \<Rightarrow> fs \<Rightarrow> event list \<Rightarrow> string list \<Rightarrow> (exit + string list) \<times> string list" where
  "scanObjects E files [] corruptOids = (Inr corruptOids, [])"
| "scanObjects E files (ev # evs) corruptOids =
     (case objectsCallback E files ev corruptOids of
        (Inl x, out) \<Rightarrow> (Inl x, out)
      | (Inr corruptOids', out) \<Rightarrow>
          (case scanObjects E files evs corruptOids' of (r, out') \<Rightarrow> (r, out @ out')))"

definition doFsckObjects ::
  "env \<Rightarrow> fs \<Rightarrow> string \<Rightarrow> string \<Rightarrow> bool \<Rightarrow> (exit + string list) \<times> string list" where
  "doFsckObjects E files start end' useIndex =
     (case (if start = [] then ScanRef E end' else ScanRefRange E start end') of
        (evs, err) \<Rightarrow>
          (case scanObjects E files evs [] of
             (Inl x, out) \<Rightarrow> (Inl x, out)
           | (Inr corruptOids, out) \<Rightarrow>
               (case err of
                  Some e \<Rightarrow> (Inl (ExitWithError e), out)
                | None \<Rightarrow>
                    if useIndex then
                      (case ScanIndex E ''HEAD'' of
                         (evs2, err2) \<Rightarrow>
                           (case scanObjects E files evs2 corruptOids of
                              (Inl x, out2) \<Rightarrow> (Inl x, out @ out2)
                            | (Inr corruptOids2, out2) \<Rightarrow>
                                (case err2 of
                                   Some e \<Rightarrow> (Inl (ExitWithError e), out @ out2)
                                 | None \<Rightarrow> (Inr corruptOids2, out @ out2))))
                    else (Inr corruptOids, out))))"

section \<open>The pointer pass\<close>

definition nonCanonical :: "WrappedPointer \<Rightarrow> corruptPointer" where
  "nonCanonical p =
     \<lparr> blobOid = Sha1 p, treeOid = [], lfsOid = Oid p, path = [],
       message = ''Pointer for '' @ Oid p @ '' (blob '' @ Sha1 p @ '') was not canonical'',
       kind = ''nonCanonicalPointer'' \<rparr>"

definition unexpectedObject :: "env \<Rightarrow> string \<Rightarrow> string \<Rightarrow> corruptPointer" where
  "unexpectedObject E t pa =
     \<lparr> blobOid = [], treeOid = t, lfsOid = [], path = pa,
       message = strconv_Quote E pa @ '' (treeish '' @ t @
                 '') should have been a pointer but was not'',
       kind = ''unexpectedGitObject'' \<rparr>"

definition pointersCallback ::
  "env \<Rightarrow> event \<Rightarrow> corruptPointer list \<Rightarrow> (exit + corruptPointer list) \<times> string list" where
  "pointersCallback E ev corruptPointers =
     (case fst ev of
        Some p \<Rightarrow>
          if \<not> Canonical p then
            (let cp = nonCanonical p in
             (Inr (corruptPointers @ [cp]), [''pointer: '' @ String cp]))
          else (Inr corruptPointers, [])
      | None \<Rightarrow>
          if IsPointerScanError E (snd ev) then
            (case snd ev of
               Some (PointerScanError t pa) \<Rightarrow>
                 (let cp = unexpectedObject E t pa in
                  (Inr (corruptPointers @ [cp]), [''pointer: '' @ String cp]))
             | _ \<Rightarrow> (Inr corruptPointers, []))
          else (Inl (Panic (snd ev) ''Error checking Git LFS files''), []))"

fun scanPointers ::
  "env \<Rightarrow> event list \<Rightarrow> corruptPointer list \<Rightarrow> (exit + corruptPointer list) \<times> string list"
  where
  "scanPointers E [] corruptPointers = (Inr corruptPointers, [])"
| "scanPointers E (ev # evs) corruptPointers =
     (case pointersCallback E ev corruptPointers of
        (Inl x, out) \<Rightarrow> (Inl x, out)
      | (Inr corruptPointers', out) \<Rightarrow>
          (case scanPointers E evs corruptPointers' of (r, out') \<Rightarrow> (r, out @ out')))"

definition doFsckPointers ::
  "env \<Rightarrow> string \<Rightarrow> string \<Rightarrow> (exit + corruptPointer list) \<times> string list" where
  "doFsckPointers E start end' =
     (case (if start = [] then ScanRefByTree E end' else ScanRefRangeByTree E start end') of
        (evs, err) \<Rightarrow>
          (case scanPointers E evs [] of
             (Inl x, out) \<Rightarrow> (Inl x, out)
           | (Inr corruptPointers, out) \<Rightarrow>
               (case err of
                  Some e \<Rightarrow> (Inl (ExitWithError e), out)
                | None \<Rightarrow> (Inr corruptPointers, out))))"

section \<open>The command\<close>

text \<open>
  The switch on \<^verbatim>\<open>len(args)\<close>: the triple \<open>(start, end, useIndex)\<close>. The calls of
  \<^verbatim>\<open>installHooks\<close> and \<^verbatim>\<open>setupRepository\<close> before it are the set-up shared by the
  commands and are left out.
\<close>

definition scanRange :: "env \<Rightarrow> string list \<Rightarrow> exit + (string \<times> string \<times> bool)" where
  "scanRange E args =
     (case args of
        [] \<Rightarrow>
          (case CurrentRef E of
             Inl err \<Rightarrow> Inl (ExitWithError err)
           | Inr r \<Rightarrow> Inr ([], Sha r, True))
      | [a] \<Rightarrow>
          (case ResolveRefs E (strings_SplitN2 a ''..'') of
             Inl err \<Rightarrow> Inl (ExitWithError err)
           | Inr refs \<Rightarrow>
               if length refs = 2 then Inr (Sha (refs ! 0), Sha (refs ! 1), False)
               else (case refs of
                       [] \<Rightarrow> Inl (RuntimePanic ''index out of range'')
                     | r # _ \<Rightarrow> Inr ([], Sha r, False)))
      | _ \<Rightarrow> Inr ([], ''HEAD'', False))"

text \<open>
  The two passes, after the default of the flags: the lists \<^verbatim>\<open>corruptOids\<close> and
  \<^verbatim>\<open>corruptPointers\<close> (empty for a pass that was not asked for) and the value of \<^verbatim>\<open>ok\<close>.
\<close>

definition runPasses ::
  "env \<Rightarrow> fs \<Rightarrow> bool \<Rightarrow> bool \<Rightarrow> string \<times> string \<times> bool \<Rightarrow>
   (exit + (bool \<times> string list \<times> corruptPointer list)) \<times> string list" where
  "runPasses E files fsckObjects fsckPointers rng =
     (case rng of (start, end', useIndex) \<Rightarrow>
      let both = (\<not> fsckPointers \<and> \<not> fsckObjects);
          fsckPointers' = (fsckPointers \<or> both);
          fsckObjects' = (fsckObjects \<or> both) in
      (case (if fsckObjects' then doFsckObjects E files start end' useIndex
             else (Inr [], [])) of
         (Inl x, out) \<Rightarrow> (Inl x, out)
       | (Inr corruptOids, out) \<Rightarrow>
           let ok = (if fsckObjects' then corruptOids = [] else True) in
           (case (if fsckPointers' then doFsckPointers E start end' else (Inr [], [])) of
              (Inl x, out2) \<Rightarrow> (Inl x, out @ out2)
            | (Inr corruptPointers, out2) \<Rightarrow>
                let ok' = (if fsckPointers' then ok \<and> corruptPointers = [] else ok) in
                (Inr (ok', corruptOids, corruptPointers), out @ out2))))"

text \<open>The loop that moves the corrupt objects to the directory \<^verbatim>\<open>bad\<close>.\<close>

fun renameAll :: "env \<Rightarrow> fs \<Rightarrow> string \<Rightarrow> string list \<Rightarrow> (go_error \<times> fs) + fs" where
  "renameAll E files badDir [] = Inr files"
| "renameAll E files badDir (oid # oids) =
     (let badFile = filepath_Join badDir oid in
      case os_Rename files (ObjectPathname E oid) badFile of
        Inl err \<Rightarrow> Inl (err, files)
      | Inr files' \<Rightarrow> renameAll E files' badDir oids)"

text \<open>What the command leaves behind: how it ended, the file system, the lines printed.\<close>

record outcome =
  status :: exit
  store :: fs
  printed :: "string list"

definition repair :: "env \<Rightarrow> fs \<Rightarrow> string list \<Rightarrow> outcome" where
  "repair E files corruptOids =
     (let badDir = filepath_Join (LFSStorageDir E) ''bad'';
          out = [''objects: repair: moving corrupt objects to '' @ badDir] in
      case MkdirAll files badDir of
        Inl err \<Rightarrow> \<lparr> status = ExitWithError err, store = files, printed = out \<rparr>
      | Inr files1 \<Rightarrow>
          (case renameAll E files1 badDir corruptOids of
             Inl (err, files2) \<Rightarrow> \<lparr> status = ExitWithError err, store = files2, printed = out \<rparr>
           | Inr files2 \<Rightarrow> \<lparr> status = OsExit 1, store = files2, printed = out \<rparr>))"

definition fsckCommand ::
  "env \<Rightarrow> fs \<Rightarrow> bool \<Rightarrow> bool \<Rightarrow> bool \<Rightarrow> string list \<Rightarrow> outcome" where
  "fsckCommand E files fsckDryRun fsckObjects fsckPointers args =
     (case scanRange E args of
        Inl x \<Rightarrow> \<lparr> status = x, store = files, printed = [] \<rparr>
      | Inr rng \<Rightarrow>
          (case runPasses E files fsckObjects fsckPointers rng of
             (Inl x, out) \<Rightarrow> \<lparr> status = x, store = files, printed = out \<rparr>
           | (Inr (ok, corruptOids, corruptPointers), out) \<Rightarrow>
               if ok then \<lparr> status = Return, store = files, printed = out @ [''Git LFS fsck OK''] \<rparr>
               else if fsckDryRun \<or> corruptOids = []
               then \<lparr> status = OsExit 1, store = files, printed = out \<rparr>
               else (let r = repair E files corruptOids in
                     r\<lparr> printed := out @ printed r \<rparr>)))"

section \<open>A small repository for concrete runs\<close>

text \<open>
  An environment with an identity digest, so that the object named \<open>41\<close> is the one
  whose content is the byte \<open>A\<close>, and with empty scans; the runs below override the scans.
  Its decoder knows three runes beyond ASCII: the letter U+00E9, which is printable, and
  U+0085 and U+E0001, which are not; every other byte from \<open>0x80\<close> on is invalid.
\<close>

definition test_env :: env where
  "test_env =
     \<lparr> CurrentRef = Inr \<lparr> Name = ''main'', Sha = ''c1'' \<rparr>,
       ResolveRefs = (\<lambda>names. if [] \<in> set names then Inl (OtherError ''bad ref'')
                        else Inr (map (\<lambda>n. \<lparr> Name = n, Sha = ''sha-'' @ n \<rparr>) names)),
       IsPointerScanError =
         (\<lambda>e. case e of Some (PointerScanError t p) \<Rightarrow> True | _ \<Rightarrow> False),
       ScanRef = (\<lambda>r. ([], None)),
       ScanRefRange = (\<lambda>a b. ([], None)),
       ScanIndex = (\<lambda>r. ([], None)),
       ScanRefByTree = (\<lambda>r. ([], None)),
       ScanRefRangeByTree = (\<lambda>a b. ([], None)),
       ObjectPathname = (\<lambda>oid. ''objects/'' @ oid),
       LFSStorageDir = ''lfs'',
       sha256 = (\<lambda>bs. bs),
       DecodeRuneInString =
         (\<lambda>s. if take 2 s = [CHR 0xC3, CHR 0xA9] then (0xE9, 2)
              else if take 2 s = [CHR 0xC2, CHR 0x85] then (0x85, 2)
              else if take 4 s = [CHR 0xF3, CHR 0xA0, CHR 0x80, CHR 0x81] then (0xE0001, 4)
              else (0xFFFD, 1)),
       EncodeRune = (\<lambda>r. if r = 0xE9 then [CHR 0xC3, CHR 0xA9] else []),
       IsPrint = (\<lambda>r. r = 0xE9) \<rparr>"

definition test_pointer :: "string \<Rightarrow> int \<Rightarrow> WrappedPointer" where
  "test_pointer h n =
     \<lparr> Sha1 = ''b1'', PName = ''a.bin'', Oid = h, Size = n, Canonical = True \<rparr>"

text \<open>
  The repository whose object scan of a ref yields \<open>objs\<close>, whose scan of the index
  yields \<open>idx\<close> and whose tree scan yields \<open>tree\<close>.
\<close>

definition test_repo :: "event list \<Rightarrow> event list \<Rightarrow> event list \<Rightarrow> env" where
  "test_repo objs idx tree =
     test_env \<lparr> ScanRef := (\<lambda>r. (objs, None)), ScanIndex := (\<lambda>r. (idx, None)),
                ScanRefByTree := (\<lambda>r. (tree, None)) \<rparr>"

section \<open>The feed of the object pass\<close>

text \<open>
  The records the object pass is fed: those of the scan of the ref or of the range,
  followed by those of the scan of the index when it is asked for; and the content hashes
  that the pointers of a feed declare, one per record.
\<close>

definition objectFeed :: "env \<Rightarrow> string \<Rightarrow> string \<Rightarrow> bool \<Rightarrow> event list" where
  "objectFeed E start end' useIndex =
     fst (if start = [] then ScanRef E end' else ScanRefRange E start end') @
     (if useIndex then fst (ScanIndex E ''HEAD'') else [])"

fun declaredOids :: "event list \<Rightarrow> string list" where
  "declaredOids [] = []"
| "declaredOids ((Some p, e) # evs) = Oid p # declaredOids evs"
| "declaredOids ((None, e) # evs) = declaredOids evs"

section \<open>Properties of the object pass\<close>

lemma fsckPointer_path_error:
  assumes "os_Open files (ObjectPathname E oid) = Inl (PathError op pp en)"
  shows "fsckPointer E files name oid sz =
           (if sz = 0 then ((True, None), [])
            else ((False, None),
                  [''objects: openError: '' @ name @ '' ('' @ oid @
                   '') could not be checked: '' @ errno_string en]))"
  using assms by (simp add: fsckPointer_def)

lemma fsckPointer_read_error:
  assumes "os_Open files (ObjectPathname E oid) = Inr f" and "io_Copy f = Inl err"
  shows "fsckPointer E files name oid sz = ((False, Some err), [])"
  using assms by (simp add: fsckPointer_def)

lemma fsckPointer_hashed:
  assumes "os_Open files (ObjectPathname E oid) = Inr f" and "io_Copy f = Inr bytes"
  shows "fsckPointer E files name oid sz =
           (if hex_EncodeToString (sha256 E bytes) = oid then ((True, None), [])
            else ((False, None),
                  [''objects: corruptObject: '' @ name @ '' ('' @ oid @ '') is corrupt'']))"
  using assms by (simp add: fsckPointer_def Let_def)

lemma objectsCallback_pointer:
  "objectsCallback E files (Some p, None) acc =
     (case fsckPointer E files (PName p) (Oid p) (Size p) of
        ((pointerOk, err), out) \<Rightarrow>
          (case err of
             Some e \<Rightarrow> (Inl (Panic (Some e) ''Error checking Git LFS files''), out)
           | None \<Rightarrow> (Inr (if pointerOk then acc else acc @ [Oid p]), out)))"
  by (simp add: objectsCallback_def Let_def split: prod.splits option.splits)

lemma scanObjects_append:
  "scanObjects E files (xs @ ys) acc =
     (case scanObjects E files xs acc of
        (Inl x, out) \<Rightarrow> (Inl x, out)
      | (Inr acc', out) \<Rightarrow>
          (case scanObjects E files ys acc' of (r, out') \<Rightarrow> (r, out @ out')))"
  by (induction xs arbitrary: acc) (auto split: prod.splits sum.splits)

lemma os_Open_path_error:
  "os_Open files p = Inl err \<Longrightarrow> \<exists>en. err = PathError ''open'' p en"
  by (auto simp: os_Open_def split: option.splits fs_node.splits)

text \<open>
  Claim C2, as the code has it. When \<^verbatim>\<open>os.Open\<close> fails with a path error, whatever its
  cause, a pointer that declares size 0 is classified OK: nothing is printed and nothing is
  recorded. A pointer that declares another size is an \<open>openError\<close>: one diagnostic line
  is printed, the content hash is appended to \<^verbatim>\<open>corruptOids\<close>, and the scan goes on
  with the records that follow.
\<close>

theorem open_failure_classification:
  assumes "os_Open files (ObjectPathname E (Oid p)) = Inl (PathError op pp en)"
  shows "(Size p = 0 \<longrightarrow>
            fsckPointer E files (PName p) (Oid p) (Size p) = ((True, None), []) \<and>
            objectsCallback E files (Some p, None) acc = (Inr acc, []))
       \<and> (Size p \<noteq> 0 \<longrightarrow>
            (let line = ''objects: openError: '' @ PName p @ '' ('' @ Oid p @
                        '') could not be checked: '' @ errno_string en in
             fsckPointer E files (PName p) (Oid p) (Size p) = ((False, None), [line]) \<and>
             objectsCallback E files (Some p, None) acc = (Inr (acc @ [Oid p]), [line]) \<and>
             scanObjects E files ((Some p, None) # rest) acc =
               (fst (scanObjects E files rest (acc @ [Oid p])),
                line # snd (scanObjects E files rest (acc @ [Oid p])))))"
  by (simp add: objectsCallback_pointer fsckPointer_path_error [OF assms] Let_def
      split: prod.splits)

text \<open>The two cases on a store where the object \<open>41\<close> is missing.\<close>

theorem open_failure_classification_witness:
  "fsckPointer test_env Map.empty ''a.bin'' ''41'' 0 = ((True, None), []) \<and>
   objectsCallback test_env Map.empty (Some (test_pointer ''41'' 3), None) [] =
     (Inr [''41''],
      [''objects: openError: a.bin (41) could not be checked: no such file or directory''])"
proof -
  have h: "os_Open Map.empty (ObjectPathname test_env (Oid (test_pointer n k))) =
             Inl (PathError ''open'' (''objects/'' @ n) ENOENT)" for n k
    by (simp add: os_Open_def test_env_def test_pointer_def)
  show ?thesis
    using open_failure_classification [OF h, of "''41''" 0 "[]" "[]"]
          open_failure_classification [OF h, of "''41''" 3 "[]" "[]"]
    by (simp add: test_pointer_def Let_def)
qed

text \<open>
  The cause of the failure is not looked at: an object that exists but may not be opened,
  declared with size 0, is classified OK and not \<open>openError\<close>.
\<close>

theorem forbidden_empty_object_counterexample:
  "os_Open [''objects/41'' \<mapsto> ForbiddenFile] (ObjectPathname test_env ''41'') =
     Inl (PathError ''open'' ''objects/41'' EACCES) \<and>
   fsckPointer test_env [''objects/41'' \<mapsto> ForbiddenFile] ''a.bin'' ''41'' 0 =
     ((True, None), []) \<and>
   objectsCallback test_env [''objects/41'' \<mapsto> ForbiddenFile]
     (Some (test_pointer ''41'' 0), None) [] = (Inr [], [])"
  by (simp add: os_Open_def test_env_def test_pointer_def fsckPointer_def
      objectsCallback_def)

text \<open>
  Claim C3. When the stored object opens and reads to its end, the hex digest of all its
  bytes is compared with the declared content hash: equal, the object is OK and
  \<^verbatim>\<open>corruptOids\<close> is unchanged; different, a \<open>corruptObject\<close> line is printed and the
  content hash is appended to \<^verbatim>\<open>corruptOids\<close>.
\<close>

theorem hash_correspondence:
  assumes "os_Open files (ObjectPathname E (Oid p)) = Inr f" and "io_Copy f = Inr bytes"
  shows "(hex_EncodeToString (sha256 E bytes) = Oid p \<longrightarrow>
            fsckPointer E files (PName p) (Oid p) (Size p) = ((True, None), []) \<and>
            objectsCallback E files (Some p, None) acc = (Inr acc, []))
       \<and> (hex_EncodeToString (sha256 E bytes) \<noteq> Oid p \<longrightarrow>
            (let line = ''objects: corruptObject: '' @ PName p @ '' ('' @ Oid p @
                        '') is corrupt'' in
             fsckPointer E files (PName p) (Oid p) (Size p) = ((False, None), [line]) \<and>
             objectsCallback E files (Some p, None) acc = (Inr (acc @ [Oid p]), [line])))"
  by (simp add: objectsCallback_pointer fsckPointer_hashed [OF assms] Let_def)

text \<open>An intact object and one whose only byte was changed.\<close>

theorem hash_correspondence_witness:
  "objectsCallback test_env [''objects/41'' \<mapsto> RegularFile ''A'']
     (Some (test_pointer ''41'' 1), None) [] = (Inr [], []) \<and>
   objectsCallback test_env [''objects/41'' \<mapsto> RegularFile ''C'']
     (Some (test_pointer ''41'' 1), None) [] =
     (Inr [''41''], [''objects: corruptObject: a.bin (41) is corrupt''])"
proof -
  have o: "os_Open [''objects/41'' \<mapsto> RegularFile bs]
             (ObjectPathname test_env (Oid (test_pointer ''41'' 1))) =
           Inr (''objects/41'', RegularFile bs)" for bs
    by (simp add: os_Open_def test_env_def test_pointer_def)
  have c: "io_Copy (''objects/41'', RegularFile bs) = Inr bs" for bs
    by simp
  have hA: "hex_EncodeToString (sha256 test_env ''A'') = ''41''"
    by (simp add: test_env_def hexdigit_def)
  have hC: "hex_EncodeToString (sha256 test_env ''C'') = ''43''"
    by (simp add: test_env_def hexdigit_def)
  show ?thesis
    using hash_correspondence [OF o c, of "''A''" "[]"]
          hash_correspondence [OF o c, of "''C''" "[]"] hA hC
    by (simp add: test_pointer_def Let_def)
qed

lemma scanObjects_abort_at:
  assumes "scanObjects E files pre [] = (Inr acc, out)"
    and "objectsCallback E files ev acc = (Inl x, out')"
  shows "scanObjects E files (pre @ ev # rest) [] = (Inl x, out @ out')"
  using assms by (simp add: scanObjects_append)

lemma doFsckObjects_ref_abort:
  assumes "(if start = [] then ScanRef E end' else ScanRefRange E start end') = (evs, err)"
    and "scanObjects E files evs [] = (Inl x, out)"
  shows "doFsckObjects E files start end' useIndex = (Inl x, out)"
  using assms by (simp add: doFsckObjects_def)

lemma runPasses_objects_abort:
  assumes "fsckObjects \<or> \<not> fsckPointers"
    and "doFsckObjects E files start end' useIndex = (Inl x, out)"
  shows "runPasses E files fsckObjects fsckPointers (start, end', useIndex) = (Inl x, out)"
  using assms by (auto simp: runPasses_def Let_def)

lemma fsckCommand_passes_abort:
  assumes "scanRange E args = Inr rng"
    and "runPasses E files fsckObjects fsckPointers rng = (Inl x, out)"
  shows "fsckCommand E files fsckDryRun fsckObjects fsckPointers args =
           \<lparr> status = x, store = files, printed = out \<rparr>"
  using assms by (simp add: fsckCommand_def)

text \<open>
  Claim C4. When the stored object opens and reading it fails, \<^verbatim>\<open>fsckPointer\<close> returns
  the read error and prints nothing, the callback panics with that error, the records
  that follow are not examined, and the command ends there: no success line, no exit
  code 1, no relocation.
\<close>

theorem read_error_is_fatal:
  assumes opened: "os_Open files (ObjectPathname E (Oid p)) = Inr f"
    and failed: "io_Copy f = Inl err"
  shows "fsckPointer E files (PName p) (Oid p) (Size p) = ((False, Some err), []) \<and>
         objectsCallback E files (Some p, None) acc =
           (Inl (Panic (Some err) ''Error checking Git LFS files''), []) \<and>
         (scanObjects E files pre [] = (Inr acc, out) \<longrightarrow>
          scanObjects E files (pre @ (Some p, None) # rest) [] =
            (Inl (Panic (Some err) ''Error checking Git LFS files''), out)) \<and>
         (scanRange E args = Inr (start, end', useIndex) \<longrightarrow>
          fsckObjects \<or> \<not> fsckPointers \<longrightarrow>
          (if start = [] then ScanRef E end' else ScanRefRange E start end') =
            (pre @ (Some p, None) # rest, r) \<longrightarrow>
          scanObjects E files pre [] = (Inr acc, out) \<longrightarrow>
          fsckCommand E files fsckDryRun fsckObjects fsckPointers args =
            \<lparr> status = Panic (Some err) ''Error checking Git LFS files'',
              store = files, printed = out \<rparr>)"
proof -
  have fp: "fsckPointer E files (PName p) (Oid p) (Size p) = ((False, Some err), [])"
    by (rule fsckPointer_read_error [OF opened failed])
  have cb: "objectsCallback E files (Some p, None) a =
              (Inl (Panic (Some err) ''Error checking Git LFS files''), [])" for a
    by (simp add: objectsCallback_pointer fp)
  have sc: "scanObjects E files (pre @ (Some p, None) # rest) [] =
              (Inl (Panic (Some err) ''Error checking Git LFS files''), out)"
    if "scanObjects E files pre [] = (Inr acc, out)"
    using scanObjects_abort_at [OF that cb] by simp
  have cmd: "fsckCommand E files fsckDryRun fsckObjects fsckPointers args =
          \<lparr> status = Panic (Some err) ''Error checking Git LFS files'',
            store = files, printed = out \<rparr>"
    if rg: "scanRange E args = Inr (start, end', useIndex)"
      and fl: "fsckObjects \<or> \<not> fsckPointers"
      and feed: "(if start = [] then ScanRef E end' else ScanRefRange E start end') =
                   (pre @ (Some p, None) # rest, r)"
      and ok: "scanObjects E files pre [] = (Inr acc, out)"
  proof -
    have "doFsckObjects E files start end' useIndex =
            (Inl (Panic (Some err) ''Error checking Git LFS files''), out)"
      by (rule doFsckObjects_ref_abort [OF feed sc [OF ok]])
    then have "runPasses E files fsckObjects fsckPointers (start, end', useIndex) =
                 (Inl (Panic (Some err) ''Error checking Git LFS files''), out)"
      by (rule runPasses_objects_abort [OF fl])
    then show ?thesis
      by (rule fsckCommand_passes_abort [OF rg])
  qed
  from fp cb sc cmd show ?thesis by blast
qed

text \<open>A run on a store whose only object cannot be read.\<close>

theorem read_error_is_fatal_witness:
  "fsckCommand (test_repo [(Some (test_pointer ''41'' 1), None)] [] [])
     [''objects/41'' \<mapsto> UnreadableFile] False False False [] =
   \<lparr> status = Panic (Some (PathError ''read'' ''objects/41'' EIO))
                ''Error checking Git LFS files'',
     store = [''objects/41'' \<mapsto> UnreadableFile], printed = [] \<rparr>"
proof -
  let ?E = "test_repo [(Some (test_pointer ''41'' 1), None)] [] []"
  let ?fs = "[''objects/41'' \<mapsto> UnreadableFile]"
  have o: "os_Open ?fs (ObjectPathname ?E (Oid (test_pointer ''41'' 1))) =
             Inr (''objects/41'', UnreadableFile)"
    by (simp add: os_Open_def test_repo_def test_env_def test_pointer_def)
  have c: "io_Copy (''objects/41'', UnreadableFile) = Inl (PathError ''read'' ''objects/41'' EIO)"
    by simp
  have r: "scanRange ?E [] = Inr ([], ''c1'', True)"
    by (simp add: scanRange_def test_repo_def test_env_def)
  have s: "(if [] = [] then ScanRef ?E ''c1'' else ScanRefRange ?E [] ''c1'') =
             ([] @ (Some (test_pointer ''41'' 1), None) # [], None)"
    by (simp add: test_repo_def test_env_def)
  have e: "scanObjects ?E ?fs [] [] = (Inr [], [])"
    by simp
  show ?thesis
    using read_error_is_fatal [OF o c, of "[]" "[]" "[]" "[]" "[]" "[]" "''c1''" True False False None False]
      r s e
    by simp
qed

section \<open>Properties of the pointer pass\<close>

lemma appendEscapedRune_plain:
  assumes "0x20 \<le> (of_char c :: nat)" and "(of_char c :: nat) < 0x7F"
    and "c \<noteq> CHR 0x22" and "c \<noteq> CHR 0x5C"
  shows "appendEscapedRune E (of_char c) = [c]"
proof -
  have q: "char_of (0x22 :: nat) = CHR 0x22" and b: "char_of (0x5C :: nat) = CHR 0x5C"
    by code_simp+
  have "c = CHR 0x22" if "(of_char c :: nat) = 0x22"
    using arg_cong [where f = "char_of :: nat \<Rightarrow> char", OF that] q by simp
  moreover have "c = CHR 0x5C" if "(of_char c :: nat) = 0x5C"
    using arg_cong [where f = "char_of :: nat \<Rightarrow> char", OF that] b by simp
  ultimately have "(of_char c :: nat) \<noteq> 0x22" and "(of_char c :: nat) \<noteq> 0x5C"
    using assms(3,4) by blast+
  then show ?thesis
    using assms(1,2) by (simp add: appendEscapedRune_def strconv_IsPrint_def utf8_EncodeRune_def)
qed

lemma quoteRunes_plain:
  assumes "\<forall>c\<in>set s. 0x20 \<le> (of_char c :: nat) \<and> (of_char c :: nat) < 0x7F \<and>
             c \<noteq> CHR 0x22 \<and> c \<noteq> CHR 0x5C"
  shows "quoteRunes E s = s"
  using assms by (induction s) (simp_all add: appendEscapedRune_plain)

lemma strconv_Quote_plain:
  assumes "\<forall>c\<in>set s. 0x20 \<le> (of_char c :: nat) \<and> (of_char c :: nat) < 0x7F \<and>
             c \<noteq> CHR 0x22 \<and> c \<noteq> CHR 0x5C"
  shows "strconv_Quote E s = [CHR 0x22] @ s @ [CHR 0x22]"
  using quoteRunes_plain [OF assms] by (simp add: strconv_Quote_def)

text \<open>
  Claim C5. A pointer that is not canonical becomes a \<open>nonCanonicalPointer\<close> record
  whose message names its content hash and its blob hash. A pointer scan error becomes an
  \<open>unexpectedGitObject\<close> record that holds its path and its tree hash, and whose message
  is the quoted path followed by the tree hash; for a path of printable ASCII without
  double quote and backslash the quoted path is the path between double quotes. Either
  record is appended to \<^verbatim>\<open>corruptPointers\<close> and printed at once. An error that
  \<^verbatim>\<open>IsPointerScanError\<close> accepts but that is not a value of the type
  \<^verbatim>\<open>PointerScanError\<close> is passed over: nothing is appended or printed and the scan goes
  on. An error that \<^verbatim>\<open>IsPointerScanError\<close> rejects makes the callback panic, and the
  pass and the run end there.
\<close>

theorem pointer_classification:
  "(\<not> Canonical p \<longrightarrow>
      (let cp = \<lparr> blobOid = Sha1 p, treeOid = [], lfsOid = Oid p, path = [],
                  message = ''Pointer for '' @ Oid p @ '' (blob '' @ Sha1 p @
                            '') was not canonical'',
                  kind = ''nonCanonicalPointer'' \<rparr> in
       pointersCallback E (Some p, e) cps =
         (Inr (cps @ [cp]), [''pointer: nonCanonicalPointer: '' @ message cp]))) \<and>
   (IsPointerScanError E (Some (PointerScanError t pa)) \<longrightarrow>
      (let cp = \<lparr> blobOid = [], treeOid = t, lfsOid = [], path = pa,
                  message = strconv_Quote E pa @ '' (treeish '' @ t @
                            '') should have been a pointer but was not'',
                  kind = ''unexpectedGitObject'' \<rparr> in
       pointersCallback E (None, Some (PointerScanError t pa)) cps =
         (Inr (cps @ [cp]), [''pointer: unexpectedGitObject: '' @ message cp]))) \<and>
   ((\<forall>c\<in>set pa. 0x20 \<le> (of_char c :: nat) \<and> (of_char c :: nat) < 0x7F \<and>
               c \<noteq> CHR 0x22 \<and> c \<noteq> CHR 0x5C) \<longrightarrow>
      strconv_Quote E pa = [CHR 0x22] @ pa @ [CHR 0x22]) \<and>
   (IsPointerScanError E e' \<and> (\<forall>t' pa'. e' \<noteq> Some (PointerScanError t' pa')) \<longrightarrow>
      pointersCallback E (None, e') cps = (Inr cps, []) \<and>
      scanPointers E ((None, e') # rest) cps = scanPointers E rest cps) \<and>
   (\<not> IsPointerScanError E (Some err) \<longrightarrow>
      pointersCallback E (None, Some err) cps =
        (Inl (Panic (Some err) ''Error checking Git LFS files''), []) \<and>
      scanPointers E ((None, Some err) # rest) cps =
        (Inl (Panic (Some err) ''Error checking Git LFS files''), []) \<and>
      ((if start = [] then ScanRefByTree E end' else ScanRefRangeByTree E start end') =
         ((None, Some err) # rest, r) \<longrightarrow>
       doFsckPointers E start end' =
         (Inl (Panic (Some err) ''Error checking Git LFS files''), [])))"
proof -
  have skipped: "pointersCallback E (None, e') cps = (Inr cps, [])"
    if "IsPointerScanError E e'" and "\<forall>t' pa'. e' \<noteq> Some (PointerScanError t' pa')"
    using that by (simp add: pointersCallback_def split: option.splits go_error.splits)
  then have "scanPointers E ((None, e') # rest) cps = scanPointers E rest cps"
    if "IsPointerScanError E e'" and "\<forall>t' pa'. e' \<noteq> Some (PointerScanError t' pa')"
    using that by (simp split: prod.splits)
  with skipped strconv_Quote_plain [of pa E] show ?thesis
    by (simp add: pointersCallback_def nonCanonical_def unexpectedObject_def String_def
        doFsckPointers_def Let_def)
qed

text \<open>
  A tree scan with a pointer that is not canonical, an unexpected object at a plain path
  and one at a path with a double quote, a backslash, a tab, other control bytes, a byte that
  is no UTF-8, a printable letter beyond ASCII and two runes that are not printable; a
  tree scan that breaks; and an error that is accepted without being of the type.
\<close>

theorem pointer_classification_witness:
  "doFsckPointers
     (test_repo [] []
        [(Some ((test_pointer ''41'' 1) \<lparr> Canonical := False \<rparr>), None),
         (None, Some (PointerScanError ''t1'' ''data.bin'')),
         (None, Some (PointerScanError ''t2''
            (''a'' @ [CHR 0x22, CHR 0x5C, CHR 0x09, CHR 0x01, CHR 0x07, CHR 0x08,
        CHR 0x0C, CHR 0x0A, CHR 0x0D, CHR 0x0B, CHR 0x7F, CHR 0xFF, CHR 0xC3, CHR 0xA9,
                      CHR 0xC2, CHR 0x85, CHR 0xF3, CHR 0xA0, CHR 0x80, CHR 0x81])))])
     [] ''c1'' =
   (Inr [\<lparr> blobOid = ''b1'', treeOid = [], lfsOid = ''41'', path = [],
           message = ''Pointer for 41 (blob b1) was not canonical'',
           kind = ''nonCanonicalPointer'' \<rparr>,
         \<lparr> blobOid = [], treeOid = ''t1'', lfsOid = [], path = ''data.bin'',
           message = [CHR 0x22] @ ''data.bin'' @ [CHR 0x22] @
                     '' (treeish t1) should have been a pointer but was not'',
           kind = ''unexpectedGitObject'' \<rparr>,
         \<lparr> blobOid = [], treeOid = ''t2'', lfsOid = [],
           path = ''a'' @ [CHR 0x22, CHR 0x5C, CHR 0x09, CHR 0x01, CHR 0x07, CHR 0x08,
        CHR 0x0C, CHR 0x0A, CHR 0x0D, CHR 0x0B, CHR 0x7F, CHR 0xFF, CHR 0xC3, CHR 0xA9,
                           CHR 0xC2, CHR 0x85, CHR 0xF3, CHR 0xA0, CHR 0x80, CHR 0x81],
           message = [CHR 0x22] @ ''a'' @ [CHR 0x5C, CHR 0x22, CHR 0x5C, CHR 0x5C, CHR 0x5C] @
                     ''t'' @ [CHR 0x5C] @ ''x01'' @ [CHR 0x5C] @ ''a'' @ [CHR 0x5C] @ ''b'' @
       [CHR 0x5C] @ ''f'' @ [CHR 0x5C] @ ''n'' @ [CHR 0x5C] @ ''r'' @ [CHR 0x5C] @ ''v'' @
       [CHR 0x5C] @ ''x7f'' @ [CHR 0x5C] @ ''xff'' @
                     [CHR 0xC3, CHR 0xA9, CHR 0x5C] @ ''u0085'' @ [CHR 0x5C] @ ''U000e0001'' @
                     [CHR 0x22] @ '' (treeish t2) should have been a pointer but was not'',
           kind = ''unexpectedGitObject'' \<rparr>],
    [''pointer: nonCanonicalPointer: Pointer for 41 (blob b1) was not canonical'',
     ''pointer: unexpectedGitObject: '' @ [CHR 0x22] @ ''data.bin'' @ [CHR 0x22] @
       '' (treeish t1) should have been a pointer but was not'',
     ''pointer: unexpectedGitObject: '' @ [CHR 0x22] @ ''a'' @
       [CHR 0x5C, CHR 0x22, CHR 0x5C, CHR 0x5C, CHR 0x5C] @ ''t'' @ [CHR 0x5C] @ ''x01'' @ [CHR 0x5C] @ ''a'' @ [CHR 0x5C] @ ''b'' @
       [CHR 0x5C] @ ''f'' @ [CHR 0x5C] @ ''n'' @ [CHR 0x5C] @ ''r'' @ [CHR 0x5C] @ ''v'' @
       [CHR 0x5C] @ ''x7f'' @ [CHR 0x5C] @ ''xff'' @ [CHR 0xC3, CHR 0xA9, CHR 0x5C] @ ''u0085'' @ [CHR 0x5C] @
       ''U000e0001'' @ [CHR 0x22] @
       '' (treeish t2) should have been a pointer but was not'']) \<and>
   doFsckPointers (test_repo [] [] [(None, Some (OtherError ''broken pipe''))]) [] ''c1'' =
   (Inl (Panic (Some (OtherError ''broken pipe'')) ''Error checking Git LFS files''), []) \<and>
   pointersCallback (test_env \<lparr> IsPointerScanError := (\<lambda>e. True) \<rparr>)
     (None, Some (OtherError ''wrapped'')) [] = (Inr [], [])"
proof -
  let ?q = "(test_pointer ''41'' 1) \<lparr> Canonical := False \<rparr>"
  let ?w = "''a'' @ [CHR 0x22, CHR 0x5C, CHR 0x09, CHR 0x01, CHR 0x07, CHR 0x08,
        CHR 0x0C, CHR 0x0A, CHR 0x0D, CHR 0x0B, CHR 0x7F, CHR 0xFF, CHR 0xC3, CHR 0xA9,
                     CHR 0xC2, CHR 0x85, CHR 0xF3, CHR 0xA0, CHR 0x80, CHR 0x81]"
  let ?evs = "[(Some ?q, None), (None, Some (PointerScanError ''t1'' ''data.bin'')),
               (None, Some (PointerScanError ''t2'' ?w))]"
  let ?E = "test_repo [] [] ?evs"
  let ?F = "test_repo [] [] [(None, Some (OtherError ''broken pipe''))]"
  let ?G = "test_env \<lparr> IsPointerScanError := (\<lambda>e. True) \<rparr>"
  let ?cp1 = "\<lparr> blobOid = ''b1'', treeOid = [], lfsOid = ''41'', path = [],
                 message = ''Pointer for 41 (blob b1) was not canonical'',
                 kind = ''nonCanonicalPointer'' \<rparr>"
  let ?cp2 = "\<lparr> blobOid = [], treeOid = ''t1'', lfsOid = [], path = ''data.bin'',
                 message = [CHR 0x22] @ ''data.bin'' @ [CHR 0x22] @
                           '' (treeish t1) should have been a pointer but was not'',
                 kind = ''unexpectedGitObject'' \<rparr>"
  have ch: "char_of (97 :: nat) = CHR ''a''" "char_of (34 :: nat) = CHR 0x22"
    "char_of (92 :: nat) = CHR 0x5C"
    by code_simp+
  have qw: "strconv_Quote ?E ?w =
      [CHR 0x22] @ ''a'' @ [CHR 0x5C, CHR 0x22, CHR 0x5C, CHR 0x5C, CHR 0x5C] @ ''t'' @
      [CHR 0x5C] @ ''x01'' @ [CHR 0x5C] @ ''a'' @ [CHR 0x5C] @ ''b'' @
       [CHR 0x5C] @ ''f'' @ [CHR 0x5C] @ ''n'' @ [CHR 0x5C] @ ''r'' @ [CHR 0x5C] @ ''v'' @
       [CHR 0x5C] @ ''x7f'' @ [CHR 0x5C] @ ''xff'' @ [CHR 0xC3, CHR 0xA9, CHR 0x5C] @ ''u0085'' @
      [CHR 0x5C] @ ''U000e0001'' @ [CHR 0x22]"
    by (simp add: ch strconv_Quote_def appendEscapedRune_def strconv_IsPrint_def
        utf8_EncodeRune_def hexdigits_def hexdigit_def backslash_def RuneError_def
        ValidRune_def test_repo_def test_env_def)
  have plain: "\<forall>c\<in>set ''data.bin''. 0x20 \<le> (of_char c :: nat) \<and> (of_char c :: nat) < 0x7F \<and>
                 c \<noteq> CHR 0x22 \<and> c \<noteq> CHR 0x5C"
    by simp
  have a: "\<not> Canonical ?q"
    by (simp add: test_pointer_def)
  have b: "IsPointerScanError ?E (Some (PointerScanError t pa))" for t pa
    by (simp add: test_repo_def test_env_def)
  have c: "\<not> IsPointerScanError ?F (Some (OtherError ''broken pipe''))"
    by (simp add: test_repo_def test_env_def)
  have d: "(if [] = [] then ScanRefByTree ?F ''c1'' else ScanRefRangeByTree ?F [] ''c1'') =
             ((None, Some (OtherError ''broken pipe'')) # [], None)"
    by (simp add: test_repo_def test_env_def)
  have g: "IsPointerScanError ?G (Some (OtherError ''wrapped'')) \<and>
           (\<forall>t' pa'. Some (OtherError ''wrapped'') \<noteq> Some (PointerScanError t' pa'))"
    by simp
  have t: "ScanRefByTree ?E ''c1'' = (?evs, None)"
    by (simp add: test_repo_def test_env_def)
  have s1: "pointersCallback ?E (Some ?q, None) [] =
              (Inr [?cp1],
               [''pointer: nonCanonicalPointer: Pointer for 41 (blob b1) was not canonical''])"
    using pointer_classification [where p = ?q and E = ?E and e = None and cps = "[]"] a
    by (simp add: Let_def test_pointer_def)
  have s2: "pointersCallback ?E (None, Some (PointerScanError ''t1'' ''data.bin'')) [?cp1] =
              (Inr [?cp1, ?cp2],
               [''pointer: unexpectedGitObject: '' @ [CHR 0x22] @ ''data.bin'' @ [CHR 0x22] @
                  '' (treeish t1) should have been a pointer but was not''])"
    using pointer_classification
        [where E = ?E and t = "''t1''" and pa = "''data.bin''" and cps = "[?cp1]"] b plain
    by (simp add: Let_def)
  have s3: "pointersCallback ?E (None, Some (PointerScanError ''t2'' ?w)) [?cp1, ?cp2] =
              (Inr [?cp1, ?cp2,
                 \<lparr> blobOid = [], treeOid = ''t2'', lfsOid = [], path = ?w,
                   message = strconv_Quote ?E ?w @
                             '' (treeish t2) should have been a pointer but was not'',
                   kind = ''unexpectedGitObject'' \<rparr>],
               [''pointer: unexpectedGitObject: '' @ strconv_Quote ?E ?w @
                  '' (treeish t2) should have been a pointer but was not''])"
    using pointer_classification
        [where E = ?E and t = "''t2''" and pa = ?w and cps = "[?cp1, ?cp2]"] b
    by (simp add: Let_def)
  have s4: "doFsckPointers ?F [] ''c1'' =
              (Inl (Panic (Some (OtherError ''broken pipe'')) ''Error checking Git LFS files''), [])"
    using pointer_classification
        [where E = ?F and err = "OtherError ''broken pipe''" and rest = "[]" and start = "[]"
           and end' = "''c1''" and r = None] c d
    by simp
  have s5: "pointersCallback ?G (None, Some (OtherError ''wrapped'')) [] = (Inr [], [])"
    using pointer_classification
        [where E = ?G and e' = "Some (OtherError ''wrapped'')" and cps = "[]"] g
    by blast
  have "doFsckPointers ?E [] ''c1'' =
          (Inr [?cp1, ?cp2,
             \<lparr> blobOid = [], treeOid = ''t2'', lfsOid = [], path = ?w,
               message = strconv_Quote ?E ?w @
                         '' (treeish t2) should have been a pointer but was not'',
               kind = ''unexpectedGitObject'' \<rparr>],
           [''pointer: nonCanonicalPointer: Pointer for 41 (blob b1) was not canonical'',
            ''pointer: unexpectedGitObject: '' @ [CHR 0x22] @ ''data.bin'' @ [CHR 0x22] @
              '' (treeish t1) should have been a pointer but was not'',
            ''pointer: unexpectedGitObject: '' @ strconv_Quote ?E ?w @
              '' (treeish t2) should have been a pointer but was not''])"
    unfolding doFsckPointers_def by (simp add: t s1 s2 s3 del: append.simps)
  with s4 s5 show ?thesis
    unfolding qw by simp
qed

lemma appendEscapedRune_index:
  "appendEscapedRune (E \<lparr> ScanIndex := idx \<rparr>) r = appendEscapedRune E r"
  by (simp add: appendEscapedRune_def strconv_IsPrint_def utf8_EncodeRune_def)

lemma quoteRunes_index:
  "quoteRunes (E \<lparr> ScanIndex := idx \<rparr>) s = quoteRunes E s"
proof (induction E s rule: quoteRunes.induct)
  case (1 E)
  then show ?case by simp
next
  case (2 E c cs)
  then show ?case
    by (simp add: appendEscapedRune_index split: prod.splits)
qed

lemma unexpectedObject_index:
  "unexpectedObject (E \<lparr> ScanIndex := idx \<rparr>) t pa = unexpectedObject E t pa"
  by (simp add: unexpectedObject_def strconv_Quote_def quoteRunes_index)

lemma pointersCallback_index:
  "pointersCallback (E \<lparr> ScanIndex := idx \<rparr>) ev cps = pointersCallback E ev cps"
  by (simp add: pointersCallback_def unexpectedObject_index
      split: option.splits go_error.splits)

lemma scanPointers_index:
  "scanPointers (E \<lparr> ScanIndex := idx \<rparr>) evs cps = scanPointers E evs cps"
  by (induction evs arbitrary: cps)
    (simp_all add: pointersCallback_index split: prod.splits sum.splits)

lemma doFsckPointers_index:
  "doFsckPointers (E \<lparr> ScanIndex := idx \<rparr>) start end' = doFsckPointers E start end'"
  by (simp add: doFsckPointers_def scanPointers_index)

lemma scanRange_index:
  "scanRange (E \<lparr> ScanIndex := idx \<rparr>) args = scanRange E args"
  by (simp add: scanRange_def split: list.splits sum.splits)

lemma runPasses_pointers_only:
  "runPasses E files False True (start, end', useIndex) =
     (case doFsckPointers E start end' of
        (Inl x, out) \<Rightarrow> (Inl x, out)
      | (Inr cps, out) \<Rightarrow> (Inr (cps = [], [], cps), out))"
  by (simp add: runPasses_def Let_def split: prod.splits sum.splits)

lemma fsckCommand_pointers_only:
  "fsckCommand E files fsckDryRun False True args =
     (case scanRange E args of
        Inl x \<Rightarrow> \<lparr> status = x, store = files, printed = [] \<rparr>
      | Inr (start, end', useIndex) \<Rightarrow>
          (case doFsckPointers E start end' of
             (Inl x, out) \<Rightarrow> \<lparr> status = x, store = files, printed = out \<rparr>
           | (Inr cps, out) \<Rightarrow>
               if cps = [] then \<lparr> status = Return, store = files,
                                   printed = out @ [''Git LFS fsck OK''] \<rparr>
               else \<lparr> status = OsExit 1, store = files, printed = out \<rparr>))"
  by (simp add: fsckCommand_def runPasses_pointers_only split: prod.splits sum.splits)

text \<open>
  Claim C10. The pointer pass never scans the index: its result is the same whatever the
  scan of the index would yield, and so is the whole run when only the pointer pass is
  asked for, also without arguments, where \<^verbatim>\<open>useIndex\<close> is set. If the tree scan of the
  current ref yields nothing, the run is OK whatever the index holds.
\<close>

theorem pointer_pass_ignores_index:
  "doFsckPointers (E \<lparr> ScanIndex := idx \<rparr>) start end' = doFsckPointers E start end' \<and>
   fsckCommand (E \<lparr> ScanIndex := idx \<rparr>) files fsckDryRun False True [] =
     fsckCommand E files fsckDryRun False True [] \<and>
   (CurrentRef E = Inr c \<and> ScanRefByTree E (Sha c) = ([], None) \<longrightarrow>
    fsckCommand (E \<lparr> ScanIndex := idx \<rparr>) files fsckDryRun False True [] =
      \<lparr> status = Return, store = files, printed = [''Git LFS fsck OK''] \<rparr>)"
proof -
  have "fsckCommand E files fsckDryRun False True [] =
          \<lparr> status = Return, store = files, printed = [''Git LFS fsck OK''] \<rparr>"
    if "CurrentRef E = Inr c" and "ScanRefByTree E (Sha c) = ([], None)"
    using that by (simp add: fsckCommand_pointers_only scanRange_def doFsckPointers_def)
  moreover have "fsckCommand (E \<lparr> ScanIndex := idx \<rparr>) files fsckDryRun False True [] =
                   fsckCommand E files fsckDryRun False True []"
    by (simp add: fsckCommand_pointers_only doFsckPointers_index scanRange_index
        split: sum.splits prod.splits)
  ultimately show ?thesis
    by (simp add: doFsckPointers_index)
qed

text \<open>An index that holds a non-canonical pointer and an unexpected object.\<close>

theorem pointer_pass_ignores_index_witness:
  "fsckCommand
     (test_repo [] [(Some ((test_pointer ''41'' 1) \<lparr> Canonical := False \<rparr>), None),
                    (None, Some (PointerScanError ''t1'' ''data.bin''))] [])
     Map.empty False False True [] =
   \<lparr> status = Return, store = Map.empty, printed = [''Git LFS fsck OK''] \<rparr>"
proof -
  let ?idx = "[(Some ((test_pointer ''41'' 1) \<lparr> Canonical := False \<rparr>), None),
               (None, Some (PointerScanError ''t1'' ''data.bin''))]"
  have e: "test_repo [] ?idx [] = (test_repo [] [] []) \<lparr> ScanIndex := (\<lambda>r. (?idx, None)) \<rparr>"
    by (simp add: test_repo_def)
  have c: "CurrentRef (test_repo [] [] []) = Inr \<lparr> Name = ''main'', Sha = ''c1'' \<rparr> \<and>
           ScanRefByTree (test_repo [] [] []) (Sha \<lparr> Name = ''main'', Sha = ''c1'' \<rparr>) =
             ([], None)"
    by (simp add: test_repo_def test_env_def)
  have "fsckCommand ((test_repo [] [] []) \<lparr> ScanIndex := (\<lambda>r. (?idx, None)) \<rparr>)
          Map.empty False False True [] =
        \<lparr> status = Return, store = Map.empty, printed = [''Git LFS fsck OK''] \<rparr>"
    using pointer_pass_ignores_index
      [where E = "test_repo [] [] []" and idx = "\<lambda>r. (?idx, None)" and files = Map.empty
         and fsckDryRun = False and c = "\<lparr> Name = ''main'', Sha = ''c1'' \<rparr>"] c
    by blast
  then show ?thesis
    unfolding e .
qed

section \<open>The outcome of a run\<close>

lemma fsckPointer_results:
  "(\<exists>l. fsckPointer E files name oid sz = ((False, None), [l])) \<or>
   fsckPointer E files name oid sz = ((True, None), []) \<or>
   (\<exists>e. fsckPointer E files name oid sz = ((False, Some e), []))"
  by (simp add: fsckPointer_def Let_def split: sum.splits go_error.splits)

lemma objectsCallback_lines:
  assumes "objectsCallback E files ev acc = (Inr acc', out)"
  shows "length acc' = length acc + length out"
proof (cases ev)
  case (Pair p err)
  with assms obtain q where ev: "ev = (Some q, None)"
    by (cases p; cases err) (simp_all add: objectsCallback_def)
  from fsckPointer_results [of E files "PName q" "Oid q" "Size q"] assms show ?thesis
    unfolding ev objectsCallback_pointer by auto
qed

lemma scanObjects_lines:
  "scanObjects E files evs acc = (Inr acc', out) \<Longrightarrow>
   length acc' = length acc + length out"
proof (induction evs arbitrary: acc out)
  case Nil
  then show ?case by simp
next
  case (Cons ev evs)
  from Cons.prems obtain a1 o1 o2
    where cb: "objectsCallback E files ev acc = (Inr a1, o1)"
      and rest: "scanObjects E files evs a1 = (Inr acc', o2)"
      and out: "out = o1 @ o2"
    by (auto split: prod.splits sum.splits)
  from objectsCallback_lines [OF cb] Cons.IH [OF rest] out show ?case
    by simp
qed

lemma doFsckObjects_lines:
  assumes "doFsckObjects E files start end' useIndex = (Inr oids, out)"
  shows "length oids = length out"
  using assms
  by (auto simp: doFsckObjects_def split: prod.splits sum.splits option.splits if_splits
      dest!: scanObjects_lines)

lemma pointersCallback_lines:
  assumes "pointersCallback E ev acc = (Inr acc', out)"
  shows "length acc' = length acc + length out"
  using assms
  by (auto simp: pointersCallback_def Let_def
      split: option.splits if_splits go_error.splits)

lemma scanPointers_lines:
  "scanPointers E evs acc = (Inr acc', out) \<Longrightarrow>
   length acc' = length acc + length out"
proof (induction evs arbitrary: acc out)
  case Nil
  then show ?case by simp
next
  case (Cons ev evs)
  from Cons.prems obtain a1 o1 o2
    where cb: "pointersCallback E ev acc = (Inr a1, o1)"
      and rest: "scanPointers E evs a1 = (Inr acc', o2)"
      and out: "out = o1 @ o2"
    by (auto split: prod.splits sum.splits)
  from pointersCallback_lines [OF cb] Cons.IH [OF rest] out show ?case
    by simp
qed

lemma doFsckPointers_lines:
  assumes "doFsckPointers E start end' = (Inr cps, out)"
  shows "length cps = length out"
  using assms
  by (auto simp: doFsckPointers_def split: prod.splits sum.splits option.splits if_splits
      dest!: scanPointers_lines)

text \<open>What a pair of completed passes returns.\<close>

lemma runPasses_completed:
  assumes "runPasses E files fsckObjects fsckPointers (start, end', useIndex) =
             (Inr (ok, oids, cps), out)"
  shows "\<exists>o1 o2.
           (if fsckObjects \<or> \<not> fsckPointers
            then doFsckObjects E files start end' useIndex = (Inr oids, o1)
            else oids = [] \<and> o1 = []) \<and>
           (if fsckPointers \<or> \<not> fsckObjects
            then doFsckPointers E start end' = (Inr cps, o2)
            else cps = [] \<and> o2 = []) \<and>
           out = o1 @ o2 \<and> ok = (oids = [] \<and> cps = [])"
  using assms
  by (auto simp: runPasses_def Let_def split: prod.splits sum.splits if_splits)

lemma runPasses_lines:
  assumes "runPasses E files fsckObjects fsckPointers rng = (Inr (ok, oids, cps), out)"
  shows "length out = length oids + length cps"
proof -
  obtain start end' useIndex where rng: "rng = (start, end', useIndex)"
    by (cases rng) auto
  from runPasses_completed [OF assms [unfolded rng]] show ?thesis
    by (auto split: if_splits dest!: doFsckObjects_lines doFsckPointers_lines)
qed

lemma fsckCommand_completed:
  assumes "scanRange E args = Inr rng"
    and "runPasses E files fsckObjects fsckPointers rng = (Inr (ok, oids, cps), out)"
  shows "fsckCommand E files fsckDryRun fsckObjects fsckPointers args =
           (if ok then \<lparr> status = Return, store = files, printed = out @ [''Git LFS fsck OK''] \<rparr>
            else if fsckDryRun \<or> oids = []
            then \<lparr> status = OsExit 1, store = files, printed = out \<rparr>
            else (repair E files oids) \<lparr> printed := out @ printed (repair E files oids) \<rparr>)"
  using assms by (simp add: fsckCommand_def Let_def)

text \<open>
  Claim C7. When both passes have completed with a finding, and either the run is a dry
  run or no object is corrupt, the command calls neither \<^verbatim>\<open>MkdirAll\<close> nor
  \<^verbatim>\<open>os.Rename\<close>: it leaves the file system as it found it, prints only the diagnostics of
  the passes and exits with code 1.
\<close>

theorem no_mutation_without_repair:
  assumes "scanRange E args = Inr rng"
    and "runPasses E files fsckObjects fsckPointers rng = (Inr (False, oids, cps), out)"
    and "fsckDryRun \<or> oids = []"
  shows "fsckCommand E files fsckDryRun fsckObjects fsckPointers args =
           \<lparr> status = OsExit 1, store = files, printed = out \<rparr>"
  using assms(3) by (auto simp: fsckCommand_completed [OF assms(1,2)])

text \<open>
  A dry run over a store whose object \<open>41\<close> is corrupt, and a run whose only finding
  is a pointer that is not canonical.
\<close>

theorem no_mutation_without_repair_witness:
  "fsckCommand (test_repo [(Some (test_pointer ''41'' 1), None)] [] [])
     [''objects/41'' \<mapsto> RegularFile ''C''] True False False [] =
   \<lparr> status = OsExit 1, store = [''objects/41'' \<mapsto> RegularFile ''C''],
     printed = [''objects: corruptObject: a.bin (41) is corrupt''] \<rparr> \<and>
   fsckCommand
     (test_repo [] [] [(Some ((test_pointer ''41'' 1) \<lparr> Canonical := False \<rparr>), None)])
     [''objects/41'' \<mapsto> RegularFile ''A''] False False False [] =
   \<lparr> status = OsExit 1, store = [''objects/41'' \<mapsto> RegularFile ''A''],
     printed = [''pointer: nonCanonicalPointer: Pointer for 41 (blob b1) was not canonical''] \<rparr>"
proof -
  let ?E = "test_repo [(Some (test_pointer ''41'' 1), None)] [] []"
  let ?q = "(test_pointer ''41'' 1) \<lparr> Canonical := False \<rparr>"
  let ?F = "test_repo [] [] [(Some ?q, None)]"
  have r: "scanRange (test_repo a b c) [] = Inr ([], ''c1'', True)" for a b c
    by (simp add: scanRange_def test_repo_def test_env_def)
  have p: "runPasses ?E [''objects/41'' \<mapsto> RegularFile ''C''] False False ([], ''c1'', True) =
             (Inr (False, [''41''], []), [''objects: corruptObject: a.bin (41) is corrupt''])"
    by (simp add: runPasses_def doFsckObjects_def doFsckPointers_def objectsCallback_def
        fsckPointer_def os_Open_def test_repo_def test_env_def test_pointer_def hexdigit_def)
  have q: "runPasses ?F [''objects/41'' \<mapsto> RegularFile ''A''] False False ([], ''c1'', True) =
             (Inr (False, [], [nonCanonical ?q]),
              [''pointer: nonCanonicalPointer: Pointer for 41 (blob b1) was not canonical''])"
    by (simp add: runPasses_def doFsckObjects_def doFsckPointers_def pointersCallback_def
        nonCanonical_def String_def test_repo_def test_env_def test_pointer_def)
  show ?thesis
    using no_mutation_without_repair [OF r p, of True]
      no_mutation_without_repair [OF r q, of False]
    by simp
qed

text \<open>
  Claim C1, as the code has it. Once both passes have completed, the run is OK exactly
  when every pass that was asked for returned an empty list. An OK run prints the single
  line of success and returns, the store untouched. A run that is not OK exits with
  code 1 when it is a dry run or no object is corrupt; otherwise it exits with code 1
  when the directory is there or can be made and every rename succeeds, and it ends with
  the error of \<^verbatim>\<open>MkdirAll\<close> or of the first rename that fails.
\<close>

theorem exit_status_of_completed_run:
  assumes "scanRange E args = Inr (start, end', useIndex)"
    and "runPasses E files fsckObjects fsckPointers (start, end', useIndex) =
           (Inr (ok, oids, cps), out)"
  shows "(ok \<longleftrightarrow>
            ((fsckObjects \<or> \<not> fsckPointers) \<longrightarrow>
               fst (doFsckObjects E files start end' useIndex) = Inr []) \<and>
            ((fsckPointers \<or> \<not> fsckObjects) \<longrightarrow>
               fst (doFsckPointers E start end') = Inr [])) \<and>
         (ok \<longrightarrow>
            fsckCommand E files fsckDryRun fsckObjects fsckPointers args =
              \<lparr> status = Return, store = files, printed = [''Git LFS fsck OK''] \<rparr>) \<and>
         (\<not> ok \<longrightarrow>
            status (fsckCommand E files fsckDryRun fsckObjects fsckPointers args) =
              (if fsckDryRun \<or> oids = [] then OsExit 1
               else case MkdirAll files (filepath_Join (LFSStorageDir E) ''bad'') of
                      Inl err \<Rightarrow> ExitWithError err
                    | Inr files1 \<Rightarrow>
                        (case renameAll E files1 (filepath_Join (LFSStorageDir E) ''bad'') oids of
                           Inl (err, files2) \<Rightarrow> ExitWithError err
                         | Inr files2 \<Rightarrow> OsExit 1)))"
proof -
  note cmd = fsckCommand_completed [OF assms, of fsckDryRun]
  from runPasses_completed [OF assms(2)] obtain o1 o2
    where objs: "if fsckObjects \<or> \<not> fsckPointers
                 then doFsckObjects E files start end' useIndex = (Inr oids, o1)
                 else oids = [] \<and> o1 = []"
      and ptrs: "if fsckPointers \<or> \<not> fsckObjects
                 then doFsckPointers E start end' = (Inr cps, o2)
                 else cps = [] \<and> o2 = []"
      and ok: "ok = (oids = [] \<and> cps = [])"
    by blast
  have a: "ok \<longleftrightarrow>
            ((fsckObjects \<or> \<not> fsckPointers) \<longrightarrow>
               fst (doFsckObjects E files start end' useIndex) = Inr []) \<and>
            ((fsckPointers \<or> \<not> fsckObjects) \<longrightarrow>
               fst (doFsckPointers E start end') = Inr [])"
    using objs ptrs ok by (auto split: if_splits)
  have b: "fsckCommand E files fsckDryRun fsckObjects fsckPointers args =
             \<lparr> status = Return, store = files, printed = [''Git LFS fsck OK''] \<rparr>" if ok
  proof -
    from that ok runPasses_lines [OF assms(2)] have "out = []"
      by simp
    with that cmd show ?thesis
      by simp
  qed
  have c: "status (fsckCommand E files fsckDryRun fsckObjects fsckPointers args) =
              (if fsckDryRun \<or> oids = [] then OsExit 1
               else case MkdirAll files (filepath_Join (LFSStorageDir E) ''bad'') of
                      Inl err \<Rightarrow> ExitWithError err
                    | Inr files1 \<Rightarrow>
                        (case renameAll E files1 (filepath_Join (LFSStorageDir E) ''bad'') oids of
                           Inl (err, files2) \<Rightarrow> ExitWithError err
                         | Inr files2 \<Rightarrow> OsExit 1))" if "\<not> ok"
    using that cmd by (simp add: repair_def Let_def split: sum.splits prod.splits)
  from a b c show ?thesis
    by blast
qed

text \<open>
  A clean store; a store whose object \<open>41\<close> is corrupt and is moved; a store where the
  object \<open>41\<close> is missing, so that its rename fails.
\<close>

theorem exit_status_of_completed_run_witness:
  "fsckCommand (test_repo [] [] []) Map.empty False False False [] =
     \<lparr> status = Return, store = Map.empty, printed = [''Git LFS fsck OK''] \<rparr> \<and>
   status (fsckCommand (test_repo [(Some (test_pointer ''41'' 1), None)] [] [])
             [''objects/41'' \<mapsto> RegularFile ''C''] False False False []) = OsExit 1 \<and>
   status (fsckCommand (test_repo [(Some (test_pointer ''41'' 1), None)] [] [])
             Map.empty False False False []) =
     ExitWithError (LinkError ''rename'' ''objects/41'' ''lfs/bad/41'' ENOENT)"
proof -
  let ?E = "test_repo [(Some (test_pointer ''41'' 1), None)] [] []"
  have r: "scanRange (test_repo a b c) [] = Inr ([], ''c1'', True)" for a b c
    by (simp add: scanRange_def test_repo_def test_env_def)
  have p0: "runPasses (test_repo [] [] []) Map.empty False False ([], ''c1'', True) =
              (Inr (True, [], []), [])"
    by (simp add: runPasses_def doFsckObjects_def doFsckPointers_def test_repo_def
        test_env_def)
  have p1: "runPasses ?E [''objects/41'' \<mapsto> RegularFile ''C''] False False ([], ''c1'', True) =
              (Inr (False, [''41''], []), [''objects: corruptObject: a.bin (41) is corrupt''])"
    by (simp add: runPasses_def doFsckObjects_def doFsckPointers_def objectsCallback_def
        fsckPointer_def os_Open_def test_repo_def test_env_def test_pointer_def hexdigit_def)
  have p2: "runPasses ?E Map.empty False False ([], ''c1'', True) =
              (Inr (False, [''41''], []),
               [''objects: openError: a.bin (41) could not be checked: no such file or directory''])"
    by (simp add: runPasses_def doFsckObjects_def doFsckPointers_def objectsCallback_def
        fsckPointer_def os_Open_def test_repo_def test_env_def test_pointer_def)
  have d: "filepath_Join (LFSStorageDir ?E) ''bad'' = ''lfs/bad''"
    by (simp add: filepath_Join_def test_repo_def test_env_def)
  show ?thesis
    using exit_status_of_completed_run [OF r p0, of False]
      exit_status_of_completed_run [OF r p1, of False]
      exit_status_of_completed_run [OF r p2, of False]
    by (simp add: d MkdirAll_def os_Rename_def filepath_Join_def test_repo_def test_env_def)
qed

text \<open>
  The pointer \<open>a.bin\<close> declares three bytes and the object is not in the store: the pass
  records an \<open>openError\<close>, the rename of the missing file fails, and the run ends with
  that error instead of exit code 1.
\<close>

theorem missing_object_run_counterexample:
  "runPasses (test_repo [(Some (test_pointer ''41'' 3), None)] [] []) Map.empty False False
     ([], ''c1'', True) =
     (Inr (False, [''41''], []),
      [''objects: openError: a.bin (41) could not be checked: no such file or directory'']) \<and>
   fsckCommand (test_repo [(Some (test_pointer ''41'' 3), None)] [] []) Map.empty
     False False False [] =
     \<lparr> status = ExitWithError (LinkError ''rename'' ''objects/41'' ''lfs/bad/41'' ENOENT),
       store = [''lfs/bad'' \<mapsto> Directory],
       printed =
         [''objects: openError: a.bin (41) could not be checked: no such file or directory'',
          ''objects: repair: moving corrupt objects to lfs/bad''] \<rparr>"
  by (simp add: fsckCommand_def scanRange_def runPasses_def doFsckObjects_def
      doFsckPointers_def objectsCallback_def fsckPointer_def os_Open_def repair_def
      MkdirAll_def os_Rename_def filepath_Join_def test_repo_def test_env_def
      test_pointer_def Let_def)

section \<open>The scan range\<close>

lemma cut_Some:
  "strings_Cut sep s = Some (a, b) \<Longrightarrow> s = a @ sep @ b"
proof (induction s arbitrary: a)
  case Nil
  then show ?case by simp
next
  case (Cons c cs)
  show ?case
  proof (cases "take (length sep) (c # cs) = sep")
    case True
    with Cons.prems have "a = []" and "b = drop (length sep) (c # cs)"
      by simp_all
    with True append_take_drop_id [of "length sep" "c # cs"] show ?thesis
      by simp
  next
    case False
    with Cons.prems obtain a' where "strings_Cut sep cs = Some (a', b)" and "a = c # a'"
      by (auto split: option.splits)
    with Cons.IH show ?thesis by simp
  qed
qed

lemma cut_None:
  assumes "sep \<noteq> []"
  shows "strings_Cut sep s = None \<Longrightarrow> s \<noteq> a @ sep @ b"
proof (induction s arbitrary: a)
  case Nil
  with assms show ?case by simp
next
  case (Cons c cs)
  from Cons.prems have nt: "take (length sep) (c # cs) \<noteq> sep" and rec: "strings_Cut sep cs = None"
    by (auto split: if_splits option.splits)
  show ?case
  proof (cases a)
    case Nil
    with nt show ?thesis by auto
  next
    case (Cons x a')
    with Cons.IH [OF rec, of a'] show ?thesis by auto
  qed
qed

lemma strings_SplitN2_none:
  assumes "sep \<noteq> []" and "\<nexists>x y. s = x @ sep @ y"
  shows "strings_SplitN2 s sep = [s]"
proof (cases "strings_Cut sep s")
  case None
  then show ?thesis by (simp add: strings_SplitN2_def)
next
  case (Some ab)
  with cut_Some [of sep s "fst ab" "snd ab"] assms(2) show ?thesis
    by auto
qed

lemma strings_SplitN2_some:
  assumes "sep \<noteq> []" and "s = x @ sep @ y"
  shows "\<exists>a b. strings_SplitN2 s sep = [a, b] \<and> s = a @ sep @ b"
proof (cases "strings_Cut sep s")
  case None
  with cut_None [OF assms(1)] assms(2) show ?thesis by blast
next
  case (Some ab)
  then obtain a b where ab: "strings_Cut sep s = Some (a, b)"
    by (cases ab) auto
  with cut_Some [OF ab] show ?thesis
    by (auto simp: strings_SplitN2_def)
qed

lemma fsckCommand_unresolved:
  "scanRange E args = Inl x \<Longrightarrow>
   fsckCommand E files fsckDryRun fsckObjects fsckPointers args =
     \<lparr> status = x, store = files, printed = [] \<rparr>"
  by (simp add: fsckCommand_def)

text \<open>
  Claim C8. Without arguments the range is the current ref as \<open>end\<close>, no \<open>start\<close>, and
  \<^verbatim>\<open>useIndex\<close> set. One argument is split at its first \<open>..\<close>: an argument that holds
  \<open>..\<close> gives two expressions, one that does not gives itself alone. Two resolved refs
  become \<open>start\<close> and \<open>end\<close>, a single one becomes \<open>end\<close> with no \<open>start\<close>. When the
  resolver fails the command ends with \<^verbatim>\<open>ExitWithError\<close> on its error: nothing has been
  scanned, nothing printed by the passes, and the store is untouched.
\<close>

theorem scan_range_resolution:
  "(CurrentRef E = Inr c \<longrightarrow> scanRange E [] = Inr ([], Sha c, True)) \<and>
   ((\<exists>x y. a = x @ ''..'' @ y) \<longrightarrow>
      (\<exists>x y. strings_SplitN2 a ''..'' = [x, y] \<and> a = x @ ''..'' @ y)) \<and>
   ((\<nexists>x y. a = x @ ''..'' @ y) \<longrightarrow> strings_SplitN2 a ''..'' = [a]) \<and>
   (ResolveRefs E (strings_SplitN2 a ''..'') = Inr [r1, r2] \<longrightarrow>
      scanRange E [a] = Inr (Sha r1, Sha r2, False)) \<and>
   (ResolveRefs E (strings_SplitN2 a ''..'') = Inr [r1] \<longrightarrow>
      scanRange E [a] = Inr ([], Sha r1, False)) \<and>
   ((\<nexists>x y. a = x @ ''..'' @ y) \<and> ResolveRefs E [a] = Inr [r1] \<longrightarrow>
      scanRange E [a] = Inr ([], Sha r1, False)) \<and>
   (CurrentRef E = Inl err \<longrightarrow>
      fsckCommand E files fsckDryRun fsckObjects fsckPointers [] =
        \<lparr> status = ExitWithError err, store = files, printed = [] \<rparr>) \<and>
   (ResolveRefs E (strings_SplitN2 a ''..'') = Inl err \<longrightarrow>
      fsckCommand E files fsckDryRun fsckObjects fsckPointers [a] =
        \<lparr> status = ExitWithError err, store = files, printed = [] \<rparr>)"
proof -
  have none: "strings_SplitN2 a ''..'' = [a]" if "\<nexists>x y. a = x @ ''..'' @ y"
    using strings_SplitN2_none [OF _ that] by simp
  have some: "\<exists>x y. strings_SplitN2 a ''..'' = [x, y] \<and> a = x @ ''..'' @ y"
    if "\<exists>x y. a = x @ ''..'' @ y"
    using that strings_SplitN2_some [of "''..''" a] by blast
  have two: "scanRange E [a] = Inr (Sha r1, Sha r2, False)"
    if "ResolveRefs E (strings_SplitN2 a ''..'') = Inr [r1, r2]"
    using that by (simp add: scanRange_def)
  have one: "scanRange E [a] = Inr ([], Sha r1, False)"
    if "ResolveRefs E (strings_SplitN2 a ''..'') = Inr [r1]"
    using that by (simp add: scanRange_def)
  have cur: "scanRange E [] = Inr ([], Sha c, True)" if "CurrentRef E = Inr c"
    using that by (simp add: scanRange_def)
  have e0: "fsckCommand E files fsckDryRun fsckObjects fsckPointers [] =
              \<lparr> status = ExitWithError err, store = files, printed = [] \<rparr>"
    if "CurrentRef E = Inl err"
    using that by (intro fsckCommand_unresolved) (simp add: scanRange_def)
  have e1: "fsckCommand E files fsckDryRun fsckObjects fsckPointers [a] =
              \<lparr> status = ExitWithError err, store = files, printed = [] \<rparr>"
    if "ResolveRefs E (strings_SplitN2 a ''..'') = Inl err"
    using that by (intro fsckCommand_unresolved) (simp add: scanRange_def)
  from none some two one cur e0 e1 show ?thesis
    by (metis (no_types, lifting))
qed

text \<open>A range, a single ref, no argument, and a range whose second ref is empty.\<close>

theorem scan_range_resolution_witness:
  "scanRange test_env [''main..dev''] = Inr (''sha-main'', ''sha-dev'', False) \<and>
   scanRange test_env [''main''] = Inr ([], ''sha-main'', False) \<and>
   scanRange test_env [] = Inr ([], ''c1'', True) \<and>
   fsckCommand test_env Map.empty False False False [''main..''] =
     \<lparr> status = ExitWithError (OtherError ''bad ref''), store = Map.empty, printed = [] \<rparr>"
proof -
  let ?r = "\<lambda>n. \<lparr> Name = n, Sha = ''sha-'' @ n \<rparr>"
  have s2: "strings_SplitN2 ''main..dev'' ''..'' = [''main'', ''dev'']"
    by (simp add: strings_SplitN2_def)
  have s1: "strings_SplitN2 ''main'' ''..'' = [''main'']"
    by (simp add: strings_SplitN2_def)
  have s0: "strings_SplitN2 ''main..'' ''..'' = [''main'', []]"
    by (simp add: strings_SplitN2_def)
  have two: "ResolveRefs test_env (strings_SplitN2 ''main..dev'' ''..'') =
               Inr [?r ''main'', ?r ''dev'']"
    by (simp add: s2 test_env_def)
  have one: "ResolveRefs test_env (strings_SplitN2 ''main'' ''..'') = Inr [?r ''main'']"
    by (simp add: s1 test_env_def)
  have bad: "ResolveRefs test_env (strings_SplitN2 ''main..'' ''..'') =
               Inl (OtherError ''bad ref'')"
    by (simp add: s0 test_env_def)
  have cur: "CurrentRef test_env = Inr \<lparr> Name = ''main'', Sha = ''c1'' \<rparr>"
    by (simp add: test_env_def)
  show ?thesis
    using scan_range_resolution
        [where E = test_env and a = "''main..dev''" and ?r1.0 = "?r ''main''"
           and ?r2.0 = "?r ''dev''" and c = "\<lparr> Name = ''main'', Sha = ''c1'' \<rparr>"]
      scan_range_resolution
        [where E = test_env and a = "''main''" and ?r1.0 = "?r ''main''"]
      scan_range_resolution
        [where E = test_env and a = "''main..''" and err = "OtherError ''bad ref''"
           and files = Map.empty and fsckDryRun = False and fsckObjects = False
           and fsckPointers = False]
      two one bad cur
    by simp
qed

section \<open>The list of corrupt objects\<close>

lemma count_list_snoc:
  "count_list (xs @ [x]) h = count_list xs h + (if x = h then 1 else 0)"
  by (induction xs) simp_all

lemma objectsCallback_count:
  assumes "objectsCallback E files ev acc = (Inr acc', out)"
  shows "count_list acc' h \<le> count_list acc h + count_list (declaredOids [ev]) h"
proof (cases ev)
  case (Pair p err)
  with assms obtain q where ev: "ev = (Some q, None)"
    by (cases p; cases err) (simp_all add: objectsCallback_def)
  from fsckPointer_results [of E files "PName q" "Oid q" "Size q"] assms show ?thesis
    unfolding ev objectsCallback_pointer by (auto simp: count_list_snoc)
qed

lemma declaredOids_Cons:
  "count_list (declaredOids (ev # evs)) h =
     count_list (declaredOids [ev]) h + count_list (declaredOids evs) h"
  by (cases ev; cases "fst ev") auto

lemma declaredOids_append:
  "count_list (declaredOids (xs @ ys)) h =
     count_list (declaredOids xs) h + count_list (declaredOids ys) h"
proof (induction xs)
  case Nil
  then show ?case by simp
next
  case (Cons ev xs)
  have "count_list (declaredOids ((ev # xs) @ ys)) h =
          count_list (declaredOids [ev]) h + count_list (declaredOids (xs @ ys)) h"
    using declaredOids_Cons [of ev "xs @ ys" h] by simp
  with Cons.IH declaredOids_Cons [of ev xs h] show ?case by simp
qed

lemma scanObjects_count:
  "scanObjects E files evs acc = (Inr acc', out) \<Longrightarrow>
   count_list acc' h \<le> count_list acc h + count_list (declaredOids evs) h"
proof (induction evs arbitrary: acc out)
  case Nil
  then show ?case by simp
next
  case (Cons ev evs)
  from Cons.prems obtain a1 o1 o2
    where cb: "objectsCallback E files ev acc = (Inr a1, o1)"
      and rest: "scanObjects E files evs a1 = (Inr acc', o2)"
    by (auto split: prod.splits sum.splits)
  from objectsCallback_count [OF cb, of h] Cons.IH [OF rest] declaredOids_Cons [of ev evs h]
  show ?case by simp
qed

lemma doFsckObjects_count:
  assumes "doFsckObjects E files start end' useIndex = (Inr oids, out)"
  shows "count_list oids h \<le> count_list (declaredOids (objectFeed E start end' useIndex)) h"
proof -
  obtain evs err where ref: "(if start = [] then ScanRef E end' else ScanRefRange E start end') =
      (evs, err)"
    by (cases "if start = [] then ScanRef E end' else ScanRefRange E start end'") auto
  obtain evs2 err2 where idx: "ScanIndex E ''HEAD'' = (evs2, err2)"
    by (cases "ScanIndex E ''HEAD''") auto
  from assms ref obtain a1 o1 where s1: "scanObjects E files evs [] = (Inr a1, o1)"
    and fin: "if useIndex then \<exists>o2. scanObjects E files evs2 a1 = (Inr oids, o2) else oids = a1"
    unfolding doFsckObjects_def idx
    by (auto split: prod.splits sum.splits option.splits if_splits)
  have c1: "count_list a1 h \<le> count_list (declaredOids evs) h"
    using scanObjects_count [OF s1, of h] by simp
  show ?thesis
  proof (cases useIndex)
    case True
    with fin obtain o2 where "scanObjects E files evs2 a1 = (Inr oids, o2)"
      by auto
    from scanObjects_count [OF this, of h] c1 True ref idx show ?thesis
      by (simp add: objectFeed_def declaredOids_append)
  next
    case False
    with fin c1 ref show ?thesis
      by (simp add: objectFeed_def)
  qed
qed

text \<open>
  Claim C9, as the code has it. \<^verbatim>\<open>corruptOids\<close> gets one entry per record that is found
  corrupt, so a content hash occurs in it at most as often as the records of the feed
  declare it: at most once when at most one record of the ref scan and the index scan
  together declares that hash.
\<close>

theorem corrupt_oid_occurrences:
  assumes "doFsckObjects E files start end' useIndex = (Inr oids, out)"
    and "count_list (declaredOids (objectFeed E start end' useIndex)) h \<le> 1"
  shows "count_list oids h \<le> 1"
  using doFsckObjects_count [OF assms(1), of h] assms(2) by simp

text \<open>A ref scan and an index with one missing object each.\<close>

theorem corrupt_oid_occurrences_witness:
  "doFsckObjects
     (test_repo [(Some (test_pointer ''41'' 3), None)] [(Some (test_pointer ''42'' 3), None)] [])
     Map.empty [] ''c1'' True =
   (Inr [''41'', ''42''],
    [''objects: openError: a.bin (41) could not be checked: no such file or directory'',
     ''objects: openError: a.bin (42) could not be checked: no such file or directory'']) \<and>
   count_list [''41'', ''42''] ''41'' \<le> 1"
proof -
  let ?E = "test_repo [(Some (test_pointer ''41'' 3), None)]
              [(Some (test_pointer ''42'' 3), None)] []"
  have d: "doFsckObjects ?E Map.empty [] ''c1'' True =
             (Inr [''41'', ''42''],
              [''objects: openError: a.bin (41) could not be checked: no such file or directory'',
               ''objects: openError: a.bin (42) could not be checked: no such file or directory''])"
    by (simp add: doFsckObjects_def objectsCallback_def fsckPointer_def os_Open_def
        test_repo_def test_env_def test_pointer_def)
  have f: "count_list (declaredOids (objectFeed ?E [] ''c1'' True)) ''41'' \<le> 1"
    by (simp add: objectFeed_def test_repo_def test_env_def test_pointer_def)
  from corrupt_oid_occurrences [OF d f] d show ?thesis
    by blast
qed

text \<open>
  The same missing object declared by a pointer of the ref scan and by a pointer of the
  index: its hash is recorded twice.
\<close>

theorem duplicate_corrupt_oid_counterexample:
  "doFsckObjects
     (test_repo [(Some (test_pointer ''41'' 3), None)] [(Some (test_pointer ''41'' 3), None)] [])
     Map.empty [] ''c1'' True =
   (Inr [''41'', ''41''],
    [''objects: openError: a.bin (41) could not be checked: no such file or directory'',
     ''objects: openError: a.bin (41) could not be checked: no such file or directory''])"
  by (simp add: doFsckObjects_def objectsCallback_def fsckPointer_def os_Open_def
      test_repo_def test_env_def test_pointer_def)

section \<open>The move of corrupt objects\<close>

lemma os_Rename_ok:
  assumes "os_Rename files old new = Inr files'"
  shows "\<exists>n. files old = Some n \<and> files' = (files(old := None))(new \<mapsto> n)"
  using assms by (auto simp: os_Rename_def split: option.splits if_splits)

lemma filepath_Join_inject:
  "filepath_Join d a = filepath_Join d b \<longleftrightarrow> a = b"
  by (simp add: filepath_Join_def)

lemma filepath_Join_neq:
  "filepath_Join d a \<noteq> d"
  by (simp add: filepath_Join_def)

text \<open>
  A loop of renames that runs to its end, when no store path is a quarantine path:
  the store paths are pairwise distinct, each held a node that now sits at its
  quarantine path, and every other path is as it was.
\<close>

lemma renameAll_moves:
  assumes "renameAll E files bad oids = Inr files'"
    and "\<forall>a\<in>set oids. \<forall>b\<in>set oids. ObjectPathname E a \<noteq> filepath_Join bad b"
  shows "distinct (map (ObjectPathname E) oids) \<and>
         (\<forall>a\<in>set oids. files (ObjectPathname E a) \<noteq> None \<and>
                        files' (ObjectPathname E a) = None \<and>
                        files' (filepath_Join bad a) = files (ObjectPathname E a)) \<and>
         (\<forall>p. p \<notin> ObjectPathname E ` set oids \<union> filepath_Join bad ` set oids \<longrightarrow>
              files' p = files p)"
  using assms
proof (induction oids arbitrary: files)
  case Nil
  then show ?case by simp
next
  case (Cons a oids)
  let ?src = "ObjectPathname E"
  let ?dst = "filepath_Join bad"
  from Cons.prems(1) obtain files1
    where mv: "os_Rename files (?src a) (?dst a) = Inr files1"
      and rest: "renameAll E files1 bad oids = Inr files'"
    by (auto simp: Let_def split: sum.splits)
  from os_Rename_ok [OF mv] obtain n
    where n: "files (?src a) = Some n"
      and files1: "files1 = (files(?src a := None))(?dst a \<mapsto> n)"
    by blast
  from Cons.prems(2) have sep: "\<forall>x\<in>set oids. \<forall>y\<in>set oids. ?src x \<noteq> ?dst y"
    and sa: "?src a \<noteq> ?dst a"
    and sa1: "\<forall>x\<in>set oids. ?src a \<noteq> ?dst x"
    and sa2: "\<forall>x\<in>set oids. ?src x \<noteq> ?dst a"
    by simp_all
  from Cons.IH [OF rest sep]
  have d: "distinct (map ?src oids)"
    and mvd: "\<forall>x\<in>set oids. files1 (?src x) \<noteq> None \<and> files' (?src x) = None \<and>
                             files' (?dst x) = files1 (?src x)"
    and frame: "\<forall>p. p \<notin> ?src ` set oids \<union> ?dst ` set oids \<longrightarrow> files' p = files1 p"
    by blast+
  have gone: "files1 (?src a) = None"
    using sa by (simp add: files1)
  have fresh: "?src a \<notin> ?src ` set oids"
    using mvd gone by force
  then have anew: "a \<notin> set oids"
    by blast
  have dfresh: "?dst a \<notin> ?dst ` set oids"
    using anew by (auto simp: filepath_Join_inject)
  have "?src a \<notin> ?dst ` set oids"
    using sa1 by blast
  with frame fresh have "files' (?src a) = files1 (?src a)"
    by simp
  with gone have "files' (?src a) = None"
    by simp
  moreover have "?dst a \<notin> ?src ` set oids"
    using sa2 by force
  with frame dfresh have "files' (?dst a) = files1 (?dst a)"
    by simp
  with n have "files' (?dst a) = files (?src a)"
    by (simp add: files1)
  moreover have "files1 (?src x) = files (?src x)" if "x \<in> set oids" for x
  proof -
    from that fresh have "?src x \<noteq> ?src a"
      by (metis imageI)
    moreover from that sa2 have "?src x \<noteq> ?dst a"
      by blast
    ultimately show ?thesis
      by (simp add: files1)
  qed
  moreover have "files' p = files p"
    if "p \<notin> ?src ` set (a # oids) \<union> ?dst ` set (a # oids)" for p
    using that frame by (auto simp: files1)
  ultimately show ?case
    using d fresh mvd n by auto
qed

text \<open>A loop of renames that fails stops at the first rename that fails.\<close>

lemma renameAll_stops:
  assumes "renameAll E files bad oids = Inl (err, files')"
  shows "\<exists>pre a post. oids = pre @ a # post \<and>
           renameAll E files bad pre = Inr files' \<and>
           os_Rename files' (ObjectPathname E a) (filepath_Join bad a) = Inl err"
  using assms
proof (induction oids arbitrary: files)
  case Nil
  then show ?case by simp
next
  case (Cons a oids)
  show ?case
  proof (cases "os_Rename files (ObjectPathname E a) (filepath_Join bad a)")
    case (Inl e)
    with Cons.prems have "e = err" and "files' = files"
      by (simp_all add: Let_def)
    with Inl have "a # oids = [] @ a # oids \<and> renameAll E files bad [] = Inr files' \<and>
        os_Rename files' (ObjectPathname E a) (filepath_Join bad a) = Inl err"
      by simp
    then show ?thesis by blast
  next
    case (Inr files1)
    with Cons.prems have "renameAll E files1 bad oids = Inl (err, files')"
      by (simp add: Let_def)
    from Cons.IH [OF this] obtain pre b post
      where "oids = pre @ b # post" and "renameAll E files1 bad pre = Inr files'"
        and "os_Rename files' (ObjectPathname E b) (filepath_Join bad b) = Inl err"
      by blast
    with Inr have "a # oids = (a # pre) @ b # post \<and>
        renameAll E files bad (a # pre) = Inr files' \<and>
        os_Rename files' (ObjectPathname E b) (filepath_Join bad b) = Inl err"
      by (simp add: Let_def)
    then show ?thesis by blast
  qed
qed

lemma MkdirAll_ok:
  assumes "MkdirAll files d = Inr files1"
  shows "files1 d = Some Directory \<and>
         (if files d = None then files1 = files(d \<mapsto> Directory) else files1 = files)"
  using assms by (auto simp: MkdirAll_def split: option.splits fs_node.splits)

lemma fsckCommand_repairs:
  assumes "scanRange E args = Inr rng"
    and "runPasses E files fsckObjects fsckPointers rng = (Inr (False, oids, cps), out)"
    and "oids \<noteq> []"
  shows "status (fsckCommand E files False fsckObjects fsckPointers args) =
           status (repair E files oids) \<and>
         store (fsckCommand E files False fsckObjects fsckPointers args) =
           store (repair E files oids)"
  using assms(3) by (simp add: fsckCommand_completed [OF assms(1,2)])

text \<open>
  Claim C6. When both passes have completed with a finding, the run is not a dry run and
  \<^verbatim>\<open>corruptOids\<close> is not empty: if the directory \<^verbatim>\<open>bad\<close> cannot be ensured the command
  ends with that error and the store is untouched; otherwise the directory exists (it is
  created when absent, and nothing else changes). The renames then run in the order of
  \<^verbatim>\<open>corruptOids\<close>: the first one that fails ends the command with its error, the objects
  before it moved and the ones after it where they were. When all of them succeed the
  command exits with code 1; if no store path of a corrupt object is the directory
  \<^verbatim>\<open>bad\<close> or a path inside it, the corrupt hashes are pairwise distinct, and each of their
  files was in the store, is no longer at its store path, and sits at its path under
  \<^verbatim>\<open>bad\<close>.
\<close>

theorem quarantine_relocation:
  assumes "scanRange E args = Inr rng"
    and "runPasses E files fsckObjects fsckPointers rng = (Inr (False, oids, cps), out)"
    and "oids \<noteq> []"
  shows "(let bad = filepath_Join (LFSStorageDir E) ''bad'';
              r = fsckCommand E files False fsckObjects fsckPointers args in
          (MkdirAll files bad = Inl err \<longrightarrow> status r = ExitWithError err \<and> store r = files) \<and>
          (MkdirAll files bad = Inr files1 \<longrightarrow>
             files1 bad = Some Directory \<and>
             (if files bad = None then files1 = files(bad \<mapsto> Directory) else files1 = files) \<and>
             (renameAll E files1 bad oids = Inl (err, files2) \<longrightarrow>
                status r = ExitWithError err \<and> store r = files2 \<and>
                (\<exists>pre a post. oids = pre @ a # post \<and>
                   renameAll E files1 bad pre = Inr files2 \<and>
                   os_Rename files2 (ObjectPathname E a) (filepath_Join bad a) = Inl err)) \<and>
             (renameAll E files1 bad oids = Inr files2 \<longrightarrow>
                status r = OsExit 1 \<and> store r = files2 \<and>
                ((\<forall>a\<in>set oids. ObjectPathname E a \<noteq> bad \<and>
                     (\<forall>b\<in>set oids. ObjectPathname E a \<noteq> filepath_Join bad b)) \<longrightarrow>
                 distinct oids \<and> files2 bad = Some Directory \<and>
                 (\<forall>a\<in>set oids. files (ObjectPathname E a) \<noteq> None \<and>
                    files2 (ObjectPathname E a) = None \<and>
                    files2 (filepath_Join bad a) = files (ObjectPathname E a))))))"
proof -
  define bad where "bad = filepath_Join (LFSStorageDir E) ''bad''"
  define r where "r = fsckCommand E files False fsckObjects fsckPointers args"
  note rep = fsckCommand_repairs [OF assms, folded r_def]
  have mk_fail: "status r = ExitWithError err \<and> store r = files"
    if "MkdirAll files bad = Inl err"
    using that rep by (simp add: repair_def Let_def bad_def)
  have mv_fail: "status r = ExitWithError err \<and> store r = files2 \<and>
      (\<exists>pre a post. oids = pre @ a # post \<and> renameAll E files1 bad pre = Inr files2 \<and>
         os_Rename files2 (ObjectPathname E a) (filepath_Join bad a) = Inl err)"
    if "MkdirAll files bad = Inr files1" and "renameAll E files1 bad oids = Inl (err, files2)"
    using that rep renameAll_stops [OF that(2)] by (simp add: repair_def Let_def bad_def)
  have mv_ok: "status r = OsExit 1 \<and> store r = files2"
    if "MkdirAll files bad = Inr files1" and "renameAll E files1 bad oids = Inr files2"
    using that rep by (simp add: repair_def Let_def bad_def)
  have moved: "distinct oids \<and> files2 bad = Some Directory \<and>
      (\<forall>a\<in>set oids. files (ObjectPathname E a) \<noteq> None \<and>
         files2 (ObjectPathname E a) = None \<and>
         files2 (filepath_Join bad a) = files (ObjectPathname E a))"
    if mk: "MkdirAll files bad = Inr files1"
      and mv: "renameAll E files1 bad oids = Inr files2"
      and sep: "\<forall>a\<in>set oids. ObjectPathname E a \<noteq> bad \<and>
                  (\<forall>b\<in>set oids. ObjectPathname E a \<noteq> filepath_Join bad b)"
  proof -
    from sep have sep2: "\<forall>a\<in>set oids. \<forall>b\<in>set oids. ObjectPathname E a \<noteq> filepath_Join bad b"
      by blast
    from renameAll_moves [OF mv sep2]
    have d: "distinct (map (ObjectPathname E) oids)"
      and m: "\<forall>a\<in>set oids. files1 (ObjectPathname E a) \<noteq> None \<and>
                files2 (ObjectPathname E a) = None \<and>
                files2 (filepath_Join bad a) = files1 (ObjectPathname E a)"
      and frame: "\<forall>p. p \<notin> ObjectPathname E ` set oids \<union> filepath_Join bad ` set oids \<longrightarrow>
                files2 p = files1 p"
      by blast+
    from MkdirAll_ok [OF mk] have dir: "files1 bad = Some Directory"
      and same: "\<forall>p. p \<noteq> bad \<longrightarrow> files1 p = files p"
      by (auto split: if_splits)
    have "bad \<notin> ObjectPathname E ` set oids"
      using sep by (metis imageE)
    moreover have "bad \<notin> filepath_Join bad ` set oids"
      using filepath_Join_neq [of bad] by (metis imageE)
    ultimately have "files2 bad = Some Directory"
      using frame dir by simp
    moreover have "distinct oids"
      using d by (simp add: distinct_map)
    moreover have "files (ObjectPathname E a) \<noteq> None \<and> files2 (ObjectPathname E a) = None \<and>
        files2 (filepath_Join bad a) = files (ObjectPathname E a)" if "a \<in> set oids" for a
    proof -
      from that sep have "ObjectPathname E a \<noteq> bad"
        by blast
      with same have "files1 (ObjectPathname E a) = files (ObjectPathname E a)"
        by simp
      moreover from m that have "files1 (ObjectPathname E a) \<noteq> None"
        and "files2 (ObjectPathname E a) = None"
        and "files2 (filepath_Join bad a) = files1 (ObjectPathname E a)"
        by blast+
      ultimately show ?thesis
        by simp
    qed
    ultimately show ?thesis
      by blast
  qed
  have "(MkdirAll files bad = Inl err \<longrightarrow> status r = ExitWithError err \<and> store r = files) \<and>
        (MkdirAll files bad = Inr files1 \<longrightarrow>
           files1 bad = Some Directory \<and>
           (if files bad = None then files1 = files(bad \<mapsto> Directory) else files1 = files) \<and>
           (renameAll E files1 bad oids = Inl (err, files2) \<longrightarrow>
              status r = ExitWithError err \<and> store r = files2 \<and>
              (\<exists>pre a post. oids = pre @ a # post \<and>
                 renameAll E files1 bad pre = Inr files2 \<and>
                 os_Rename files2 (ObjectPathname E a) (filepath_Join bad a) = Inl err)) \<and>
           (renameAll E files1 bad oids = Inr files2 \<longrightarrow>
              status r = OsExit 1 \<and> store r = files2 \<and>
              ((\<forall>a\<in>set oids. ObjectPathname E a \<noteq> bad \<and>
                   (\<forall>b\<in>set oids. ObjectPathname E a \<noteq> filepath_Join bad b)) \<longrightarrow>
               distinct oids \<and> files2 bad = Some Directory \<and>
               (\<forall>a\<in>set oids. files (ObjectPathname E a) \<noteq> None \<and>
                  files2 (ObjectPathname E a) = None \<and>
                  files2 (filepath_Join bad a) = files (ObjectPathname E a)))))"
  proof (intro conjI impI)
    assume "MkdirAll files bad = Inl err"
    then show "status r = ExitWithError err" and "store r = files"
      using mk_fail by simp_all
  next
    assume mk: "MkdirAll files bad = Inr files1"
    from MkdirAll_ok [OF mk] show "files1 bad = Some Directory"
      and "if files bad = None then files1 = files(bad \<mapsto> Directory) else files1 = files"
      by simp_all
    {
      assume mv: "renameAll E files1 bad oids = Inl (err, files2)"
      from mv_fail [OF mk mv] show "status r = ExitWithError err" and "store r = files2"
        and "\<exists>pre a post. oids = pre @ a # post \<and>
               renameAll E files1 bad pre = Inr files2 \<and>
               os_Rename files2 (ObjectPathname E a) (filepath_Join bad a) = Inl err"
        by simp_all
    }
    {
      assume mv: "renameAll E files1 bad oids = Inr files2"
      from mv_ok [OF mk mv] show "status r = OsExit 1" and "store r = files2"
        by simp_all
      assume sep: "\<forall>a\<in>set oids. ObjectPathname E a \<noteq> bad \<and>
                  (\<forall>b\<in>set oids. ObjectPathname E a \<noteq> filepath_Join bad b)"
      from moved [OF mk mv sep] show "distinct oids" and "files2 bad = Some Directory"
        and "\<forall>a\<in>set oids. files (ObjectPathname E a) \<noteq> None \<and>
               files2 (ObjectPathname E a) = None \<and>
               files2 (filepath_Join bad a) = files (ObjectPathname E a)"
        by simp_all
    }
  qed
  then show ?thesis
    unfolding bad_def r_def Let_def .
qed

text \<open>Two corrupt objects, both in the store, are moved.\<close>

theorem quarantine_relocation_witness:
  "status (fsckCommand
       (test_repo [(Some (test_pointer ''41'' 1), None), (Some (test_pointer ''42'' 1), None)]
          [] [])
       [''objects/41'' \<mapsto> RegularFile ''C'', ''objects/42'' \<mapsto> RegularFile ''D'']
       False False False []) = OsExit 1 \<and>
   map (store (fsckCommand
       (test_repo [(Some (test_pointer ''41'' 1), None), (Some (test_pointer ''42'' 1), None)]
          [] [])
       [''objects/41'' \<mapsto> RegularFile ''C'', ''objects/42'' \<mapsto> RegularFile ''D'']
       False False False []))
     [''objects/41'', ''objects/42'', ''lfs/bad'', ''lfs/bad/41'', ''lfs/bad/42''] =
   [None, None, Some Directory, Some (RegularFile ''C''), Some (RegularFile ''D'')]"
proof -
  let ?E = "test_repo [(Some (test_pointer ''41'' 1), None),
                       (Some (test_pointer ''42'' 1), None)] [] []"
  let ?fs = "[''objects/41'' \<mapsto> RegularFile ''C'', ''objects/42'' \<mapsto> RegularFile ''D'']"
  let ?fs1 = "?fs(''lfs/bad'' \<mapsto> Directory)"
  let ?fs2 = "((((?fs1(''objects/41'' := None))(''lfs/bad/41'' \<mapsto> RegularFile ''C''))
                 (''objects/42'' := None))(''lfs/bad/42'' \<mapsto> RegularFile ''D''))"
  have r: "scanRange ?E [] = Inr ([], ''c1'', True)"
    by (simp add: scanRange_def test_repo_def test_env_def)
  have p: "runPasses ?E ?fs False False ([], ''c1'', True) =
             (Inr (False, [''41'', ''42''], []),
              [''objects: corruptObject: a.bin (41) is corrupt'',
               ''objects: corruptObject: a.bin (42) is corrupt''])"
    by (simp add: runPasses_def doFsckObjects_def doFsckPointers_def objectsCallback_def
        fsckPointer_def os_Open_def test_repo_def test_env_def test_pointer_def hexdigit_def)
  have ne: "[''41'', ''42''] \<noteq> []"
    by simp
  have b: "filepath_Join (LFSStorageDir ?E) ''bad'' = ''lfs/bad''"
    by (simp add: filepath_Join_def test_repo_def test_env_def)
  have mk: "MkdirAll ?fs ''lfs/bad'' = Inr ?fs1"
    by (simp add: MkdirAll_def)
  have o: "ObjectPathname ?E = (\<lambda>oid. ''objects/'' @ oid)"
    by (simp add: test_repo_def test_env_def)
  have mv: "renameAll ?E ?fs1 ''lfs/bad'' [''41'', ''42''] = Inr ?fs2"
    by (simp add: o os_Rename_def filepath_Join_def)
  have sep: "\<forall>a\<in>set [''41'', ''42'']. ObjectPathname ?E a \<noteq> ''lfs/bad'' \<and>
               (\<forall>b\<in>set [''41'', ''42'']. ObjectPathname ?E a \<noteq> filepath_Join ''lfs/bad'' b)"
    by (simp add: o filepath_Join_def)
  from quarantine_relocation [OF r p ne, of _ ?fs1 ?fs2] mk mv sep
  show ?thesis
    unfolding Let_def b by (simp add: o filepath_Join_def)
qed

end
